theory Spec2Isabelle
  imports Complex_Main "HOL-Library.Word"
begin

section \<open>The actuator module of dRonin (flight/Modules/Actuator/actuator.c)\<close>

text \<open>
  The module mixes the desired roll, pitch, yaw and thrust into per-channel values,
  post-processes them (clipping, arming), scales them to pulse widths and programs the
  servo driver. This theory embeds the functions of \<^verbatim>\<open>actuator.c\<close> and proves
  properties of them.

  Numbers. A C \<^verbatim>\<open>float\<close> is a \<^typ>\<open>real\<close>: arithmetic is exact, there is no
  rounding, no overflow and no NaN among the inputs. One operation of the source is not
  total on the reals, the division: a C float division by zero gives an infinity or a
  NaN, where HOL gives 0. The one division of the source whose divisor is not guarded
  (in \<^verbatim>\<open>transformActuatorMixture\<close>) is therefore partial in the model, and the
  values computed from it have the type \<open>cfloat\<close>, where \<open>None\<close> is a value that is not
  a finite number. The millisecond clock is a 32 bit word, the mixer coefficients are
  16 bit signed words.

  Arrays. A C array of fixed size is a function from the index; the loops of the source
  run over the indices \<open>[0..<MAX_MIX_ACTUATORS]\<close> and only these entries are read or
  written.
\<close>

subsection \<open>Constants\<close>

text \<open>
  Modelled from the spec: the sizes and indices that the generated object headers
  declare (\<^verbatim>\<open>actuatorcommand.h\<close>, \<^verbatim>\<open>mixersettings.h\<close>,
  \<^verbatim>\<open>manualcontrolcommand.h\<close>), which are not in this file.
  \<^verbatim>\<open>MAX_MIX_ACTUATORS\<close> is \<^verbatim>\<open>ACTUATORCOMMAND_CHANNEL_NUMELEM\<close> (lines 70-72); the
  spec bounds the mixer rows by the channel count, and \<^verbatim>\<open>compute_mixer\<close> (lines
  380-409) builds the mixers 1 to 10. The mixer vector has the eight columns
  ThrottleCurve1, ThrottleCurve2, Roll, Pitch, Yaw, Accessory0, Accessory1, Accessory2
  of the spec, in this order; \<^verbatim>\<open>transformActuatorMixture\<close> addresses the thrust,
  roll, pitch and yaw as 0, 2, 3 and 4. The manual control command has the three
  accessories that fill the last three columns. \<^verbatim>\<open>MIXER_SCALE\<close> is line 78. The
  general theorems below hold for every channel below \<open>MAX_MIX_ACTUATORS\<close>, whatever
  its value.
\<close>

definition MAX_MIX_ACTUATORS :: nat where
  "MAX_MIX_ACTUATORS = 10"

definition MIXERSETTINGS_MIXER1VECTOR_NUMELEM :: nat where
  "MIXERSETTINGS_MIXER1VECTOR_NUMELEM = 8"

definition MIXERSETTINGS_MIXER1VECTOR_THROTTLECURVE1 :: nat where
  "MIXERSETTINGS_MIXER1VECTOR_THROTTLECURVE1 = 0"

definition MIXERSETTINGS_MIXER1VECTOR_THROTTLECURVE2 :: nat where
  "MIXERSETTINGS_MIXER1VECTOR_THROTTLECURVE2 = 1"

definition MIXERSETTINGS_MIXER1VECTOR_ROLL :: nat where
  "MIXERSETTINGS_MIXER1VECTOR_ROLL = 2"

definition MIXERSETTINGS_MIXER1VECTOR_PITCH :: nat where
  "MIXERSETTINGS_MIXER1VECTOR_PITCH = 3"

definition MIXERSETTINGS_MIXER1VECTOR_YAW :: nat where
  "MIXERSETTINGS_MIXER1VECTOR_YAW = 4"

definition MIXERSETTINGS_MIXER1VECTOR_ACCESSORY0 :: nat where
  "MIXERSETTINGS_MIXER1VECTOR_ACCESSORY0 = 5"

definition MANUALCONTROLCOMMAND_ACCESSORY_NUMELEM :: nat where
  "MANUALCONTROLCOMMAND_ACCESSORY_NUMELEM = 3"

definition MIXER_SCALE :: real where
  "MIXER_SCALE = 128"

subsection \<open>Data model\<close>

text \<open>
  Modelled from the spec: the enumerations and the object structures are declared in
  the generated object headers, which are not in this file. They have the values and
  the fields that the spec lists in its data model and that the source names.
\<close>

type_synonym cfloat = "real option"

text \<open>
  The type of a mixer row. The field of the settings object is an integer, so it can
  hold a value that names no type: \<open>MIXERSETTINGS_MIXER1TYPE_INVALID\<close> stands for
  every such value (the \<^verbatim>\<open>default\<close> branches of the source).
\<close>

datatype MixerSettingsMixer1TypeOptions =
    MIXERSETTINGS_MIXER1TYPE_DISABLED
  | MIXERSETTINGS_MIXER1TYPE_MOTOR
  | MIXERSETTINGS_MIXER1TYPE_SERVO
  | MIXERSETTINGS_MIXER1TYPE_CAMERAROLL
  | MIXERSETTINGS_MIXER1TYPE_CAMERAPITCH
  | MIXERSETTINGS_MIXER1TYPE_CAMERAYAW
  | MIXERSETTINGS_MIXER1TYPE_INVALID

datatype MixerSettingsCurve2SourceOptions =
    MIXERSETTINGS_CURVE2SOURCE_THROTTLE
  | MIXERSETTINGS_CURVE2SOURCE_ROLL
  | MIXERSETTINGS_CURVE2SOURCE_PITCH
  | MIXERSETTINGS_CURVE2SOURCE_YAW
  | MIXERSETTINGS_CURVE2SOURCE_COLLECTIVE
  | MIXERSETTINGS_CURVE2SOURCE_ACCESSORY0
  | MIXERSETTINGS_CURVE2SOURCE_ACCESSORY1
  | MIXERSETTINGS_CURVE2SOURCE_ACCESSORY2

text \<open>Only the collective-pitch helicopter is told apart from the other airframes.\<close>

datatype SystemSettingsAirframeTypeOptions =
    SYSTEMSETTINGS_AIRFRAMETYPE_HELICP
  | SYSTEMSETTINGS_AIRFRAMETYPE_OTHER

datatype FlightStatusArmedOptions =
    FLIGHTSTATUS_ARMED_DISARMED
  | FLIGHTSTATUS_ARMED_ARMING
  | FLIGHTSTATUS_ARMED_ARMED

datatype FlightStatusFlightModeOptions =
    FLIGHTSTATUS_FLIGHTMODE_FAILSAFE
  | FLIGHTSTATUS_FLIGHTMODE_OTHER

datatype SystemAlarmsAlarmOptions =
    SYSTEMALARMS_ALARM_UNINITIALISED
  | SYSTEMALARMS_ALARM_OK
  | SYSTEMALARMS_ALARM_WARNING
  | SYSTEMALARMS_ALARM_ERROR
  | SYSTEMALARMS_ALARM_CRITICAL

datatype actuator_interlock_t =
    ACTUATOR_INTERLOCK_OK
  | ACTUATOR_INTERLOCK_STOPREQUEST
  | ACTUATOR_INTERLOCK_STOPPED

record ActuatorSettingsData =
  ChannelMax :: "nat \<Rightarrow> real"
  ChannelMin :: "nat \<Rightarrow> real"
  ChannelNeutral :: "nat \<Rightarrow> real"
  MotorsSpinWhileArmed :: bool
  MotorInputOutputCurveFit :: real
  LowPowerStabilizationMaxPowerAdd :: real
  LowPowerStabilizationMaxTime :: real

record ActuatorCommandData =
  Channel :: "nat \<Rightarrow> real"
  UpdateTime :: real
  MaxUpdateTime :: real

record ActuatorDesiredData =
  Roll :: real
  Pitch :: real
  Yaw :: real
  Thrust :: real

record CameraDesiredData =
  CameraDesiredRoll :: real
  CameraDesiredPitch :: real
  CameraDesiredYaw :: real

record FlightStatusData =
  Armed :: FlightStatusArmedOptions
  FlightMode :: FlightStatusFlightModeOptions

record ManualControlCommandData =
  Throttle :: real
  Collective :: real
  Accessory :: "nat \<Rightarrow> real"

text \<open>
  The state: the file's static variables, the objects it reads and writes, and what it
  has sent to the servo driver and the alarm subsystem.
  \<^item> \<open>types_mixer\<close>, \<open>motor_mixer\<close>, \<open>actuatorSettings\<close>, \<open>airframe_type\<close>, \<open>curve1\<close>,
    \<open>curve2\<close>, \<open>curve2_src\<close>, the four update flags and \<open>actuator_interlock\<close> are the
    file's variables (lines 83-121); \<open>manual_throt\<close>, \<open>flightStatus\<close> and
    \<open>last_pos_throttle_time\<close> are the statics of \<^verbatim>\<open>normalize_input_data\<close>.
  \<^item> \<open>ActuatorCommand\<close>, \<open>ActuatorDesired\<close>, \<open>FlightStatus\<close>, \<open>ManualControlCommand\<close> and
    \<open>CameraDesired\<close> are the objects; \<open>CameraDesired\<close> is \<open>None\<close> when
    \<^verbatim>\<open>CameraDesiredHandle()\<close> is null; \<open>ActuatorCommandReadOnly\<close> is what
    \<^verbatim>\<open>ActuatorCommandReadOnly()\<close> returns.
  \<^item> \<open>servo\<close> holds the last value given to \<^verbatim>\<open>PIOS_Servo_Set\<close> for each channel,
    \<open>servo_updates\<close> counts the calls of \<^verbatim>\<open>PIOS_Servo_Update\<close>, \<open>actuator_alarm\<close>
    is the ACTUATOR alarm.
\<close>

record actuator_state =
  types_mixer :: "nat \<Rightarrow> MixerSettingsMixer1TypeOptions"
  motor_mixer :: "nat \<Rightarrow> cfloat"
  actuatorSettings :: ActuatorSettingsData
  airframe_type :: SystemSettingsAirframeTypeOptions
  curve1 :: "real list"
  curve2 :: "real list"
  curve2_src :: MixerSettingsCurve2SourceOptions
  flight_status_updated :: bool
  manual_control_cmd_updated :: bool
  actuator_interlock :: actuator_interlock_t
  manual_throt :: real
  flightStatus :: FlightStatusData
  last_pos_throttle_time :: "32 word"
  ActuatorCommand :: ActuatorCommandData
  ActuatorCommandReadOnly :: bool
  ActuatorDesired :: ActuatorDesiredData
  FlightStatus :: FlightStatusData
  ManualControlCommand :: ManualControlCommandData
  CameraDesired :: "CameraDesiredData option"
  servo :: "nat \<Rightarrow> real"
  servo_updates :: nat
  actuator_alarm :: SystemAlarmsAlarmOptions

text \<open>
  \<^verbatim>\<open>PIOS_Assert(0)\<close> does not return: a failed assertion ends the run, with the state
  it was reached in.
\<close>

datatype actuator_fault = AssertFailed actuator_state

subsection \<open>Loops over the channels\<close>

text \<open>\<^verbatim>\<open>for (n = 0; n < MAX; ++n) a[n] = f(n);\<close> over the indices \<open>ns\<close>.\<close>

fun fill :: "nat list \<Rightarrow> (nat \<Rightarrow> 'a) \<Rightarrow> (nat \<Rightarrow> 'a) \<Rightarrow> (nat \<Rightarrow> 'a)" where
  "fill [] f a = a"
| "fill (n # ns) f a = fill ns f (a(n := f n))"

subsection \<open>Scaling and failsafe (lines 849-916)\<close>

definition scale_channel :: "actuator_state \<Rightarrow> real \<Rightarrow> nat \<Rightarrow> real" where
  "scale_channel st v idx =
    (let cmax = ChannelMax (actuatorSettings st) idx;
         cmin = ChannelMin (actuatorSettings st) idx;
         neutral = ChannelNeutral (actuatorSettings st) idx;
         valueScaled =
           (if v \<ge> 0 then v * (cmax - neutral) + neutral
            else v * (neutral - cmin) + neutral)
     in if cmax > cmin then
          (let v1 = (if valueScaled > cmax then cmax else valueScaled)
           in if v1 < cmin then cmin else v1)
        else
          (let v1 = (if valueScaled < cmax then cmax else valueScaled)
           in if v1 > cmin then cmin else v1))"

fun channel_failsafe_value :: "actuator_state \<Rightarrow> nat \<Rightarrow> real" where
  "channel_failsafe_value st idx =
    (case types_mixer st idx of
       MIXERSETTINGS_MIXER1TYPE_MOTOR \<Rightarrow> ChannelMin (actuatorSettings st) idx
     | MIXERSETTINGS_MIXER1TYPE_SERVO \<Rightarrow> ChannelNeutral (actuatorSettings st) idx
     | MIXERSETTINGS_MIXER1TYPE_DISABLED \<Rightarrow> - 1
     | _ \<Rightarrow> 0)"

text \<open>
  \<^verbatim>\<open>set_failsafe\<close>: the alarm, then for each channel the failsafe value into the local
  array (initialised to zero) and to the servo driver, the servo update, and the array
  into the ActuatorCommand object. The values go out as \<^verbatim>\<open>channel_failsafe_value\<close>
  returns them.
\<close>

definition set_failsafe :: "actuator_state \<Rightarrow> actuator_state" where
  "set_failsafe st =
    (let chan = fill [0..<MAX_MIX_ACTUATORS] (channel_failsafe_value st) (\<lambda>n. 0);
         srv = fill [0..<MAX_MIX_ACTUATORS] (channel_failsafe_value st) (servo st)
     in st\<lparr>actuator_alarm := SYSTEMALARMS_ALARM_CRITICAL,
           servo := srv,
           servo_updates := Suc (servo_updates st),
           ActuatorCommand := (ActuatorCommand st)\<lparr>Channel := chan\<rparr>\<rparr>)"

subsection \<open>Post-processing (lines 428-578)\<close>

text \<open>
  The clip statistics of the first loop. \<open>min_chan\<close> and \<open>max_chan\<close> start at
  \<^verbatim>\<open>INFINITY\<close> and \<^verbatim>\<open>-INFINITY\<close>, which is \<open>None\<close> here; \<^verbatim>\<open>fminf\<close> and
  \<^verbatim>\<open>fmaxf\<close> of the start value and \<open>v\<close> are \<open>v\<close>.
\<close>

record clip_stats =
  min_chan :: "real option"
  max_chan :: "real option"
  neg_clip :: real
  num_motors :: nat

definition clip_stats_init :: clip_stats where
  "clip_stats_init = \<lparr>min_chan = None, max_chan = None, neg_clip = 0, num_motors = 0\<rparr>"

definition fminf_chan :: "real option \<Rightarrow> real \<Rightarrow> real option" where
  "fminf_chan m v = (case m of None \<Rightarrow> Some v | Some x \<Rightarrow> Some (min x v))"

definition fmaxf_chan :: "real option \<Rightarrow> real \<Rightarrow> real option" where
  "fmaxf_chan m v = (case m of None \<Rightarrow> Some v | Some x \<Rightarrow> Some (max x v))"

text \<open>What a camera channel takes: the field of CameraDesired, or -1 without the object.\<close>

definition camera_value :: "actuator_state \<Rightarrow> (CameraDesiredData \<Rightarrow> real) \<Rightarrow> real" where
  "camera_value st field = (case CameraDesired st of Some cam \<Rightarrow> field cam | None \<Rightarrow> - 1)"

text \<open>
  The first loop (lines 437-487), over the channels \<open>cts\<close>. A row of no known type
  sets the failsafe and fails the assertion.
\<close>

fun scan_channels ::
  "actuator_state \<Rightarrow> nat list \<Rightarrow> (nat \<Rightarrow> real) \<times> clip_stats \<Rightarrow>
   actuator_fault + ((nat \<Rightarrow> real) \<times> clip_stats)" where
  "scan_channels st [] acc = Inr acc"
| "scan_channels st (ct # cts) (motor_vect, cs) =
    (case types_mixer st ct of
       MIXERSETTINGS_MIXER1TYPE_DISABLED \<Rightarrow>
         scan_channels st cts (motor_vect(ct := - 1), cs)
     | MIXERSETTINGS_MIXER1TYPE_SERVO \<Rightarrow>
         scan_channels st cts (motor_vect, cs)
     | MIXERSETTINGS_MIXER1TYPE_MOTOR \<Rightarrow>
         scan_channels st cts
           (motor_vect,
            \<lparr>min_chan = fminf_chan (min_chan cs) (motor_vect ct),
             max_chan = fmaxf_chan (max_chan cs) (motor_vect ct),
             neg_clip = (if motor_vect ct < 0 then neg_clip cs + motor_vect ct else neg_clip cs),
             num_motors = Suc (num_motors cs)\<rparr>)
     | MIXERSETTINGS_MIXER1TYPE_CAMERAPITCH \<Rightarrow>
         scan_channels st cts (motor_vect(ct := camera_value st CameraDesiredPitch), cs)
     | MIXERSETTINGS_MIXER1TYPE_CAMERAROLL \<Rightarrow>
         scan_channels st cts (motor_vect(ct := camera_value st CameraDesiredRoll), cs)
     | MIXERSETTINGS_MIXER1TYPE_CAMERAYAW \<Rightarrow>
         scan_channels st cts (motor_vect(ct := camera_value st CameraDesiredRoll), cs)
     | MIXERSETTINGS_MIXER1TYPE_INVALID \<Rightarrow>
         Inl (AssertFailed (set_failsafe st)))"

text \<open>
  Gain and offset (lines 489-528). Without a motor \<open>max_chan - min_chan\<close> is
  \<^verbatim>\<open>-INFINITY\<close> and no branch is taken. \<open>neg_clip\<close> is divided by \<open>num_motors\<close> only
  where \<open>min_chan < 0\<close>, that is after a motor has been counted.
\<close>

definition clip_gain_offset :: "actuator_state \<Rightarrow> clip_stats \<Rightarrow> real \<times> real" where
  "clip_gain_offset st cs =
    (case (min_chan cs, max_chan cs) of
       (Some mn, Some mx) \<Rightarrow>
         (let gain = (if mx - mn > 1 then 1 / (mx - mn) else 1);
              max_chan' = (if mx - mn > 1 then mx * gain else mx);
              min_chan' = (if mx - mn > 1 then mn * gain else mn);
              offset =
                (if max_chan' > 1 then 1 - max_chan'
                 else if min_chan' < 0 then
                   min (- min_chan')
                     (neg_clip cs / real (num_motors cs)
                        + LowPowerStabilizationMaxPowerAdd (actuatorSettings st))
                 else 0)
          in (gain, offset))
     | _ \<Rightarrow> (1, 0))"

text \<open>
  The value of one channel in the second loop (lines 531-551): the protection of the
  motors. \<open>powapprox\<close> is declared in \<^verbatim>\<open>misc_math.h\<close> and is a parameter.
\<close>

definition motor_protect ::
  "(real \<Rightarrow> real \<Rightarrow> real) \<Rightarrow> actuator_state \<Rightarrow> bool \<Rightarrow> bool \<Rightarrow> bool \<Rightarrow>
   real \<Rightarrow> real \<Rightarrow> nat \<Rightarrow> real \<Rightarrow> real" where
  "motor_protect powapprox st armed spin_while_armed stabilize_now gain offset ct v =
    (if types_mixer st ct = MIXERSETTINGS_MIXER1TYPE_MOTOR then
       (if \<not> armed then - 1
        else if \<not> stabilize_now then
          (if \<not> spin_while_armed then - 1 else 0)
        else
          (let v' = v * gain + offset
           in if v' > 0
              then powapprox v' (MotorInputOutputCurveFit (actuatorSettings st))
              else 0))
     else v)"

text \<open>The second loop (lines 530-554): \<open>motor_vect\<close> and \<open>command.Channel\<close>.\<close>

fun commit_channels ::
  "(real \<Rightarrow> real \<Rightarrow> real) \<Rightarrow> actuator_state \<Rightarrow> bool \<Rightarrow> bool \<Rightarrow> bool \<Rightarrow>
   real \<Rightarrow> real \<Rightarrow> nat list \<Rightarrow> (nat \<Rightarrow> real) \<times> (nat \<Rightarrow> real) \<Rightarrow>
   (nat \<Rightarrow> real) \<times> (nat \<Rightarrow> real)" where
  "commit_channels powapprox st armed spin_while_armed stabilize_now gain offset [] acc = acc"
| "commit_channels powapprox st armed spin_while_armed stabilize_now gain offset (ct # cts)
      (motor_vect, chan) =
    (let v = motor_protect powapprox st armed spin_while_armed stabilize_now gain offset ct
               (motor_vect ct)
     in commit_channels powapprox st armed spin_while_armed stabilize_now gain offset cts
          (motor_vect(ct := v), chan(ct := scale_channel st v ct)))"

text \<open>
  \<^verbatim>\<open>post_process_scale_and_commit\<close>. It returns the array \<open>motor_vect\<close>, which it
  changes in place, and the state. The local \<open>command\<close> is not initialised in the
  source; the second loop assigns every channel below \<open>MAX_MIX_ACTUATORS\<close>, and the
  entries beyond are 0 here. When ActuatorCommand is read-only the object is left as it
  is and read back, and the servo driver gets the object's channels.
\<close>

definition post_process_scale_and_commit ::
  "(real \<Rightarrow> real \<Rightarrow> real) \<Rightarrow> actuator_state \<Rightarrow> (nat \<Rightarrow> real) \<Rightarrow> real \<Rightarrow>
   bool \<Rightarrow> bool \<Rightarrow> bool \<Rightarrow> actuator_fault + ((nat \<Rightarrow> real) \<times> actuator_state)" where
  "post_process_scale_and_commit powapprox st motor_vect dT armed spin_while_armed stabilize_now =
    (case scan_channels st [0..<MAX_MIX_ACTUATORS] (motor_vect, clip_stats_init) of
       Inl fault \<Rightarrow> Inl fault
     | Inr (motor_vect1, cs) \<Rightarrow>
         (let (gain, offset) = clip_gain_offset st cs;
              (motor_vect2, chan) =
                commit_channels powapprox st armed spin_while_armed stabilize_now gain offset
                  [0..<MAX_MIX_ACTUATORS] (motor_vect1, \<lambda>n. 0);
              command =
                \<lparr>Channel = chan,
                 UpdateTime = 1000 * dT,
                 MaxUpdateTime =
                   (if 1000 * dT > MaxUpdateTime (ActuatorCommand st) then 1000 * dT
                    else MaxUpdateTime (ActuatorCommand st))\<rparr>;
              st1 = (if \<not> ActuatorCommandReadOnly st then st\<lparr>ActuatorCommand := command\<rparr>
                     else st);
              command' = ActuatorCommand st1
          in Inr (motor_vect2,
                  st1\<lparr>servo := fill [0..<MAX_MIX_ACTUATORS] (Channel command') (servo st1),
                      servo_updates := Suc (servo_updates st1)\<rparr>)))"

text \<open>The state a call of \<^verbatim>\<open>post_process_scale_and_commit\<close> ends in.\<close>

fun final_state :: "actuator_fault + ((nat \<Rightarrow> real) \<times> actuator_state) \<Rightarrow> actuator_state" where
  "final_state (Inl (AssertFailed st)) = st"
| "final_state (Inr (motor_vect, st)) = st"

subsection \<open>Input normalisation (lines 190-245, 412-426, 580-649, 829-847)\<close>

text \<open>
  \<^verbatim>\<open>linear_interpolate\<close> is declared in \<^verbatim>\<open>misc_math.h\<close> and is a parameter \<open>li\<close> of
  the functions that use it: input, curve, number of points, and the range of the input.
\<close>

type_synonym interpolation = "real \<Rightarrow> real list \<Rightarrow> nat \<Rightarrow> real \<Rightarrow> real \<Rightarrow> real"

definition throt_curve :: "interpolation \<Rightarrow> real \<Rightarrow> real list \<Rightarrow> nat \<Rightarrow> real" where
  "throt_curve li input curve num_points = li input curve num_points 0 1"

definition collective_curve :: "interpolation \<Rightarrow> real \<Rightarrow> real list \<Rightarrow> nat \<Rightarrow> real" where
  "collective_curve li input curve num_points = li input curve num_points (- 1) 1"

definition accessory_source :: "actuator_state \<Rightarrow> nat \<Rightarrow> real" where
  "accessory_source st idx =
    (if idx \<ge> MANUALCONTROLCOMMAND_ACCESSORY_NUMELEM then 0
     else Accessory (ManualControlCommand st) idx)"

fun get_curve2_source ::
  "actuator_state \<Rightarrow> ActuatorDesiredData \<Rightarrow> SystemSettingsAirframeTypeOptions \<Rightarrow>
   MixerSettingsCurve2SourceOptions \<Rightarrow> real" where
  "get_curve2_source st desired airframe MIXERSETTINGS_CURVE2SOURCE_THROTTLE =
    (if airframe = SYSTEMSETTINGS_AIRFRAMETYPE_HELICP then Throttle (ManualControlCommand st)
     else Thrust desired)"
| "get_curve2_source st desired airframe MIXERSETTINGS_CURVE2SOURCE_ROLL = Roll desired"
| "get_curve2_source st desired airframe MIXERSETTINGS_CURVE2SOURCE_PITCH = Pitch desired"
| "get_curve2_source st desired airframe MIXERSETTINGS_CURVE2SOURCE_YAW = Yaw desired"
| "get_curve2_source st desired airframe MIXERSETTINGS_CURVE2SOURCE_COLLECTIVE =
    (if airframe = SYSTEMSETTINGS_AIRFRAMETYPE_HELICP then Thrust desired
     else Collective (ManualControlCommand st))"
| "get_curve2_source st desired airframe MIXERSETTINGS_CURVE2SOURCE_ACCESSORY0 =
    accessory_source st 0"
| "get_curve2_source st desired airframe MIXERSETTINGS_CURVE2SOURCE_ACCESSORY1 =
    accessory_source st 1"
| "get_curve2_source st desired airframe MIXERSETTINGS_CURVE2SOURCE_ACCESSORY2 =
    accessory_source st 2"

definition fill_desired_vector ::
  "ActuatorDesiredData \<Rightarrow> real \<Rightarrow> real \<Rightarrow> (nat \<Rightarrow> real) \<Rightarrow> (nat \<Rightarrow> real)" where
  "fill_desired_vector desired val1 val2 cmd_vector =
    cmd_vector
      (MIXERSETTINGS_MIXER1VECTOR_THROTTLECURVE1 := val1,
       MIXERSETTINGS_MIXER1VECTOR_THROTTLECURVE2 := val2,
       MIXERSETTINGS_MIXER1VECTOR_ROLL := Roll desired,
       MIXERSETTINGS_MIXER1VECTOR_PITCH := Pitch desired,
       MIXERSETTINGS_MIXER1VECTOR_YAW := Yaw desired)"

text \<open>
  \<^verbatim>\<open>normalize_input_data\<close> in its four steps. First the objects that have changed are
  fetched (lines 590-604): FlightStatus into the static \<open>flightStatus\<close>, the manual
  throttle into \<open>manual_throt\<close>, and the accessories into the desired vector.
\<close>

definition fetch_flight_status :: "actuator_state \<Rightarrow> actuator_state" where
  "fetch_flight_status st =
    (if flight_status_updated st
     then st\<lparr>flightStatus := FlightStatus st, flight_status_updated := False\<rparr>
     else st)"

definition fetch_manual_control :: "actuator_state \<Rightarrow> actuator_state" where
  "fetch_manual_control st =
    (if manual_control_cmd_updated st
     then st\<lparr>manual_throt := Throttle (ManualControlCommand st),
             manual_control_cmd_updated := False\<rparr>
     else st)"

definition fetch_accessories :: "actuator_state \<Rightarrow> (nat \<Rightarrow> real) \<Rightarrow> (nat \<Rightarrow> real)" where
  "fetch_accessories st desired_vect =
    (if manual_control_cmd_updated st
     then fill
            [MIXERSETTINGS_MIXER1VECTOR_ACCESSORY0 ..<
               MIXERSETTINGS_MIXER1VECTOR_ACCESSORY0 + MANUALCONTROLCOMMAND_ACCESSORY_NUMELEM]
            (\<lambda>i. Accessory (ManualControlCommand st) (i - MIXERSETTINGS_MIXER1VECTOR_ACCESSORY0))
            desired_vect
     else desired_vect)"

text \<open>
  The throttle (lines 606-614), for a state whose objects have been fetched: it starts
  at -1; a helicopter takes the manual throttle unless the flight mode is the failsafe,
  the other airframes take the desired thrust.
\<close>

definition throttle_source :: "actuator_state \<Rightarrow> real" where
  "throttle_source st =
    (if airframe_type st = SYSTEMSETTINGS_AIRFRAMETYPE_HELICP then
       (if FlightMode (flightStatus st) \<noteq> FLIGHTSTATUS_FLIGHTMODE_FAILSAFE
        then manual_throt st else - 1)
     else Thrust (ActuatorDesired st))"

text \<open>
  Arming and hang time (lines 616-638): \<open>stabilize_now\<close>, the throttle and the new
  \<open>last_pos_throttle_time\<close>. The difference of the two times is a 32 bit unsigned
  subtraction, compared as a float with the time in milliseconds.
\<close>

definition hangtime ::
  "actuator_state \<Rightarrow> 32 word \<Rightarrow> bool \<Rightarrow> real \<Rightarrow> bool \<times> real \<times> 32 word" where
  "hangtime st this_systime armed throttle_val =
    (if armed \<and> throttle_val > 0 then
       (True, throttle_val,
        if LowPowerStabilizationMaxTime (actuatorSettings st) \<noteq> 0 then this_systime
        else last_pos_throttle_time st)
     else if last_pos_throttle_time st \<noteq> 0 then
       (if real (unat (this_systime - last_pos_throttle_time st))
             < 1000 * LowPowerStabilizationMaxTime (actuatorSettings st)
        then (True, 0, last_pos_throttle_time st)
        else (False, throttle_val, 0))
     else (False, throttle_val, last_pos_throttle_time st))"

text \<open>
  The result of \<^verbatim>\<open>normalize_input_data\<close>: the state, the desired vector and the three
  flags it returns through pointers; \<open>ni_throttle_val\<close> is the value of the local
  \<open>throttle_val\<close> that goes into the throttle curve.
\<close>

record normalized_input =
  ni_state :: actuator_state
  ni_desired_vect :: "nat \<Rightarrow> real"
  ni_armed :: bool
  ni_spin_while_armed :: bool
  ni_stabilize_now :: bool
  ni_throttle_val :: real

definition normalize_input_data ::
  "interpolation \<Rightarrow> actuator_state \<Rightarrow> 32 word \<Rightarrow> (nat \<Rightarrow> real) \<Rightarrow> normalized_input" where
  "normalize_input_data li st this_systime desired_vect =
    (let desired = ActuatorDesired st;
         st1 = fetch_flight_status st;
         desired_vect1 = fetch_accessories st1 desired_vect;
         st2 = fetch_manual_control st1;
         armed = (Armed (flightStatus st2) = FLIGHTSTATUS_ARMED_ARMED);
         spin_while_armed = MotorsSpinWhileArmed (actuatorSettings st2);
         (stabilize_now, throttle_val, last_pos) =
           hangtime st2 this_systime armed (throttle_source st2);
         val1 = throt_curve li throttle_val (curve1 st2) (length (curve1 st2));
         val2 = collective_curve li
                  (get_curve2_source st2 desired (airframe_type st2) (curve2_src st2))
                  (curve2 st2) (length (curve2 st2))
     in \<lparr>ni_state = st2\<lparr>last_pos_throttle_time := last_pos\<rparr>,
         ni_desired_vect = fill_desired_vector desired val1 val2 desired_vect1,
         ni_armed = armed,
         ni_spin_while_armed = spin_while_armed,
         ni_stabilize_now = stabilize_now,
         ni_throttle_val = throttle_val\<rparr>)"

subsection \<open>The mixer cache and the tilt transform (lines 256-410)\<close>

text \<open>
  Arithmetic on \<open>cfloat\<close>. A division by zero is not a finite number, and a sum, a
  difference or a product with an operand that is not a finite number is not one either.
\<close>

definition fl_div :: "real \<Rightarrow> real \<Rightarrow> cfloat" where
  "fl_div a b = (if b = 0 then None else Some (a / b))"

fun fl_mul :: "cfloat \<Rightarrow> cfloat \<Rightarrow> cfloat" where
  "fl_mul (Some a) (Some b) = Some (a * b)"
| "fl_mul _ _ = None"

fun fl_add :: "cfloat \<Rightarrow> cfloat \<Rightarrow> cfloat" where
  "fl_add (Some a) (Some b) = Some (a + b)"
| "fl_add _ _ = None"

fun fl_sub :: "cfloat \<Rightarrow> cfloat \<Rightarrow> cfloat" where
  "fl_sub (Some a) (Some b) = Some (a - b)"
| "fl_sub _ _ = None"

text \<open>
  Modelled from the spec: \<^verbatim>\<open>matrix_mul_check\<close> and \<^verbatim>\<open>matrix_add_check\<close> are declared
  in \<^verbatim>\<open>misc_math.h\<close> and \<^verbatim>\<open>CrossProduct\<close> in \<^verbatim>\<open>coordinate_conversions.h\<close>. The spec
  has \<open>F' = Ry F\<close>, \<open>M' = d \<times> F' + \<tau>'\<close> and \<open>motor_vect = M desired_vect\<close>: the product of
  a row-major matrix of \<open>rows\<close> by \<open>cols\<close> entries with a column vector, the sum of two
  vectors, and the cross product as lines 248-254 of the file quote it.
\<close>

definition matrix_mul_check ::
  "(nat \<Rightarrow> cfloat) \<Rightarrow> (nat \<Rightarrow> cfloat) \<Rightarrow> nat \<Rightarrow> nat \<Rightarrow> (nat \<Rightarrow> cfloat)" where
  "matrix_mul_check a b rows cols =
    (\<lambda>i. foldl (\<lambda>s k. fl_add s (fl_mul (a (i * cols + k)) (b k))) (Some 0) [0..<cols])"

definition matrix_add_check :: "(nat \<Rightarrow> cfloat) \<Rightarrow> (nat \<Rightarrow> cfloat) \<Rightarrow> (nat \<Rightarrow> cfloat)" where
  "matrix_add_check a b = (\<lambda>i. fl_add (a i) (b i))"

definition CrossProduct :: "(nat \<Rightarrow> cfloat) \<Rightarrow> (nat \<Rightarrow> cfloat) \<Rightarrow> (nat \<Rightarrow> cfloat)" where
  "CrossProduct v1 v2 =
    (\<lambda>i. None)
      (0 := fl_sub (fl_mul (v1 1) (v2 2)) (fl_mul (v2 1) (v1 2)),
       1 := fl_sub (fl_mul (v2 0) (v1 2)) (fl_mul (v1 0) (v2 2)),
       2 := fl_sub (fl_mul (v1 0) (v2 1)) (fl_mul (v2 0) (v1 1)))"

definition vec3 :: "cfloat \<Rightarrow> cfloat \<Rightarrow> cfloat \<Rightarrow> (nat \<Rightarrow> cfloat)" where
  "vec3 x y z = (\<lambda>i. None)(0 := x, 1 := y, 2 := z)"

text \<open>
  \<^verbatim>\<open>transformActuatorMixture\<close> (lines 256-333). The row it is given holds finite
  numbers; the quotients of \<open>d\<close> are the only divisions.
\<close>

definition transformActuatorMixture :: "(nat \<Rightarrow> real) \<Rightarrow> real \<Rightarrow> (nat \<Rightarrow> cfloat)" where
  "transformActuatorMixture motormix theta =
    (let curve1mix = - motormix 0;
         rollmix = motormix 2;
         pitchmix = motormix 3;
         yawmix = motormix 4;
         F = vec3 (Some 0) (Some 0) (Some (- curve1mix));
         tau = vec3 (Some 0) (Some 0) (Some yawmix);
         d = vec3 (fl_div pitchmix curve1mix) (fl_div (- rollmix) curve1mix) (Some 0);
         Ry = (\<lambda>k. Some ([cos theta, 0, sin theta,
                           0, 1, 0,
                           - sin theta, 0, cos theta] ! k));
         Frotated = matrix_mul_check Ry F 3 3;
         taurotated = matrix_mul_check Ry tau 3 3;
         temp = CrossProduct d Frotated;
         Mrotated = matrix_add_check temp taurotated
     in (\<lambda>i. Some (motormix i))
          (0 := Frotated 2, 2 := Mrotated 0, 3 := Mrotated 1, 4 := Mrotated 2))"

text \<open>
  \<^verbatim>\<open>compute_one_mixer\<close> (lines 335-369): the type, the row scaled by 1/128 or zeroed,
  and for a motor the transform at the angle \<open>rotorTiltActual = 0.0\<close>. The row is
  written to \<open>motor_mixer\<close> from \<open>mixnum * MIXERSETTINGS_MIXER1VECTOR_NUMELEM\<close> on.
\<close>

definition mixer_row ::
  "(nat \<Rightarrow> 16 word) \<Rightarrow> MixerSettingsMixer1TypeOptions \<Rightarrow> (nat \<Rightarrow> real)" where
  "mixer_row vals type =
    (if type \<noteq> MIXERSETTINGS_MIXER1TYPE_SERVO \<and> type \<noteq> MIXERSETTINGS_MIXER1TYPE_MOTOR
     then (\<lambda>i. 0)
     else (\<lambda>i. real_of_int (sint (vals i)) * (1 / MIXER_SCALE)))"

definition compute_one_mixer ::
  "actuator_state \<Rightarrow> nat \<Rightarrow> (nat \<Rightarrow> 16 word) \<Rightarrow> MixerSettingsMixer1TypeOptions \<Rightarrow>
   actuator_state" where
  "compute_one_mixer st mixnum vals type =
    (let base = mixnum * MIXERSETTINGS_MIXER1VECTOR_NUMELEM;
         rotorTiltActual = 0;
         row = (if type = MIXERSETTINGS_MIXER1TYPE_MOTOR
                then transformActuatorMixture (mixer_row vals type) rotorTiltActual
                else (\<lambda>i. Some (mixer_row vals type i)))
     in st\<lparr>types_mixer := (types_mixer st)(mixnum := type),
           motor_mixer :=
             fill (map (\<lambda>i. base + i) [0..<MIXERSETTINGS_MIXER1VECTOR_NUMELEM])
               (\<lambda>k. row (k - base)) (motor_mixer st)\<rparr>)"

record MixerSettingsData =
  MixerVector :: "nat \<Rightarrow> nat \<Rightarrow> 16 word"
  MixerType :: "nat \<Rightarrow> MixerSettingsMixer1TypeOptions"

fun compute_mixer_rows ::
  "actuator_state \<Rightarrow> MixerSettingsData \<Rightarrow> nat list \<Rightarrow> actuator_state" where
  "compute_mixer_rows st mixerSettings [] = st"
| "compute_mixer_rows st mixerSettings (b # bs) =
    compute_mixer_rows
      (compute_one_mixer st b (MixerVector mixerSettings b) (MixerType mixerSettings b))
      mixerSettings bs"

definition compute_mixer :: "actuator_state \<Rightarrow> MixerSettingsData \<Rightarrow> actuator_state" where
  "compute_mixer st mixerSettings = compute_mixer_rows st mixerSettings [0..<MAX_MIX_ACTUATORS]"

text \<open>The product of the mixer and the desired vector in the task (lines 793-796).\<close>

definition mix_desired :: "actuator_state \<Rightarrow> (nat \<Rightarrow> real) \<Rightarrow> (nat \<Rightarrow> cfloat)" where
  "mix_desired st desired_vect =
    matrix_mul_check (motor_mixer st) (\<lambda>j. Some (desired_vect j))
      MAX_MIX_ACTUATORS MIXERSETTINGS_MIXER1VECTOR_NUMELEM"

subsection \<open>The interlock (lines 742-774)\<close>

text \<open>
  \<open>actuator_interlock\<close> is volatile: another thread writes it. One pass of the inner
  loop is the body, which reads the clock when the flag is the stop request, and the
  sleep, during which a write of the other thread can land. A \<open>hold_event\<close> is what
  one pass gets from outside: the clock, and the write if there is one.
\<close>

record hold_event =
  he_systime :: "32 word"
  he_write :: "actuator_interlock_t option"

definition interlock_body :: "32 word \<Rightarrow> 32 word \<Rightarrow> actuator_state \<Rightarrow> actuator_state" where
  "interlock_body exp_time this_systime st =
    (if actuator_interlock st = ACTUATOR_INTERLOCK_STOPREQUEST then
       (let st1 = set_failsafe st
        in if unat (exp_time - this_systime) > 100
           then st1\<lparr>actuator_interlock := ACTUATOR_INTERLOCK_STOPPED\<rparr>
           else st1)
     else st)"

definition external_write :: "hold_event \<Rightarrow> actuator_state \<Rightarrow> actuator_state" where
  "external_write ev st =
    (case he_write ev of None \<Rightarrow> st | Some f \<Rightarrow> st\<lparr>actuator_interlock := f\<rparr>)"

text \<open>
  The inner loop over the events of its passes. It returns when it reads the flag as
  Ok: \<open>Released\<close> with the state it returns in. \<open>Holding\<close> is a loop that is still
  running when the events end, with the state it has reached.
\<close>

datatype hold_result = Holding actuator_state | Released actuator_state

fun interlock_loop ::
  "32 word \<Rightarrow> hold_event list \<Rightarrow> actuator_state \<Rightarrow> hold_result" where
  "interlock_loop exp_time [] st =
    (if actuator_interlock st \<noteq> ACTUATOR_INTERLOCK_OK then Holding st else Released st)"
| "interlock_loop exp_time (ev # evs) st =
    (if actuator_interlock st \<noteq> ACTUATOR_INTERLOCK_OK
     then interlock_loop exp_time evs
            (external_write ev (interlock_body exp_time (he_systime ev) st))
     else Released st)"

text \<open>
  The check of the task after it has read the time of the tick: with the flag not Ok
  the expiry time is 100 ms later and the loop runs; \<open>None\<close> is a tick that goes on
  to the mixing.
\<close>

definition interlock_check ::
  "32 word \<Rightarrow> hold_event list \<Rightarrow> actuator_state \<Rightarrow> hold_result option" where
  "interlock_check this_systime evs st =
    (if actuator_interlock st \<noteq> ACTUATOR_INTERLOCK_OK
     then Some (interlock_loop (this_systime + 100) evs st)
     else None)"

subsection \<open>The tick (lines 777-813)\<close>

text \<open>
  The tick of the task once the interlock is passed: the inputs are normalised, the
  mixer is applied to the desired vector, the result is post-processed and committed,
  and the alarm is cleared. The post-processing is modelled on real numbers:
  \<open>finite_vect\<close> reads the mixer output as reals, and a tick whose mixer output has
  an entry that is not a finite number is \<open>None\<close>. The desired vector is kept by
  the task from one tick to the next and is returned with the state. The time step
  \<open>dT\<close> is computed by the task before the interlock check (lines 733-738) and is a
  parameter here.

  Modelled from the spec: \<^verbatim>\<open>AlarmsClear\<close> is declared in \<^verbatim>\<open>alarms.h\<close>; the
  specification has the ACTUATOR alarm cleared on a successful tick, which is the
  value \<open>SYSTEMALARMS_ALARM_OK\<close> here.
\<close>

definition finite_vect :: "(nat \<Rightarrow> cfloat) \<Rightarrow> nat \<Rightarrow> (nat \<Rightarrow> real) option" where
  "finite_vect v n =
    (if list_all (\<lambda>i. v i \<noteq> None) [0..<n]
     then Some (\<lambda>i. case v i of Some x \<Rightarrow> x | None \<Rightarrow> 0)
     else None)"

definition actuator_tick ::
  "interpolation \<Rightarrow> (real \<Rightarrow> real \<Rightarrow> real) \<Rightarrow> actuator_state \<Rightarrow> 32 word \<Rightarrow>
   (nat \<Rightarrow> real) \<Rightarrow> real \<Rightarrow> (actuator_fault + ((nat \<Rightarrow> real) \<times> actuator_state)) option" where
  "actuator_tick li powapprox st this_systime desired_vect dT =
    (let nz = normalize_input_data li st this_systime desired_vect
     in case finite_vect (mix_desired (ni_state nz) (ni_desired_vect nz)) MAX_MIX_ACTUATORS of
          None \<Rightarrow> None
        | Some motor_vect \<Rightarrow>
            Some (case post_process_scale_and_commit powapprox (ni_state nz) motor_vect dT
                         (ni_armed nz) (ni_spin_while_armed nz) (ni_stabilize_now nz) of
                    Inl fault \<Rightarrow> Inl fault
                  | Inr (motor_vect2, st2) \<Rightarrow>
                      Inr (ni_desired_vect nz,
                           st2\<lparr>actuator_alarm := SYSTEMALARMS_ALARM_OK\<rparr>)))"

subsection \<open>What the first loop leaves in a channel\<close>

text \<open>
  The value of \<open>motor_vect[ct]\<close> after the first loop of
  \<^verbatim>\<open>post_process_scale_and_commit\<close>, read off its \<^verbatim>\<open>switch\<close>: the loop
  \<open>scan_channels\<close> is proved to compute it (lemma \<open>scan_channels_Inr\<close>).
\<close>

definition scanned_value :: "actuator_state \<Rightarrow> (nat \<Rightarrow> real) \<Rightarrow> nat \<Rightarrow> real" where
  "scanned_value st motor_vect ct =
    (case types_mixer st ct of
       MIXERSETTINGS_MIXER1TYPE_DISABLED \<Rightarrow> - 1
     | MIXERSETTINGS_MIXER1TYPE_CAMERAPITCH \<Rightarrow> camera_value st CameraDesiredPitch
     | MIXERSETTINGS_MIXER1TYPE_CAMERAROLL \<Rightarrow> camera_value st CameraDesiredRoll
     | MIXERSETTINGS_MIXER1TYPE_CAMERAYAW \<Rightarrow> camera_value st CameraDesiredRoll
     | _ \<Rightarrow> motor_vect ct)"

subsection \<open>A configuration to evaluate the functions on\<close>

text \<open>
  Four motors on the channels 0 to 3, a servo on channel 4, a camera yaw output on
  channel 5, a camera roll output on channel 6, a camera pitch output on channel 8,
  the other channels disabled; pulse widths from 1000 to 2000 with the neutral at
  1500; a CameraDesired object; the vehicle disarmed.
\<close>

definition quad_settings :: ActuatorSettingsData where
  "quad_settings =
    \<lparr>ChannelMax = (\<lambda>n. 2000), ChannelMin = (\<lambda>n. 1000), ChannelNeutral = (\<lambda>n. 1500),
     MotorsSpinWhileArmed = False, MotorInputOutputCurveFit = 1,
     LowPowerStabilizationMaxPowerAdd = 1 / 10, LowPowerStabilizationMaxTime = 1\<rparr>"

definition quad_types :: "nat \<Rightarrow> MixerSettingsMixer1TypeOptions" where
  "quad_types n =
    (if n < 4 then MIXERSETTINGS_MIXER1TYPE_MOTOR
     else if n = 4 then MIXERSETTINGS_MIXER1TYPE_SERVO
     else if n = 5 then MIXERSETTINGS_MIXER1TYPE_CAMERAYAW
     else if n = 6 then MIXERSETTINGS_MIXER1TYPE_CAMERAROLL
     else if n = 8 then MIXERSETTINGS_MIXER1TYPE_CAMERAPITCH
     else MIXERSETTINGS_MIXER1TYPE_DISABLED)"

definition quad_state :: actuator_state where
  "quad_state =
    \<lparr>types_mixer = quad_types,
     motor_mixer = (\<lambda>k. Some 0),
     actuatorSettings = quad_settings,
     airframe_type = SYSTEMSETTINGS_AIRFRAMETYPE_OTHER,
     curve1 = [0, 1 / 4, 1 / 2, 3 / 4, 1],
     curve2 = [0, 1 / 4, 1 / 2, 3 / 4, 1],
     curve2_src = MIXERSETTINGS_CURVE2SOURCE_THROTTLE,
     flight_status_updated = True,
     manual_control_cmd_updated = True,
     actuator_interlock = ACTUATOR_INTERLOCK_OK,
     manual_throt = - 1,
     flightStatus = \<lparr>Armed = FLIGHTSTATUS_ARMED_DISARMED, FlightMode = FLIGHTSTATUS_FLIGHTMODE_OTHER\<rparr>,
     last_pos_throttle_time = 0,
     ActuatorCommand = \<lparr>Channel = (\<lambda>n. 1500), UpdateTime = 0, MaxUpdateTime = 0\<rparr>,
     ActuatorCommandReadOnly = False,
     ActuatorDesired = \<lparr>Roll = 1, Pitch = 0, Yaw = 0, Thrust = 1 / 2\<rparr>,
     FlightStatus = \<lparr>Armed = FLIGHTSTATUS_ARMED_DISARMED, FlightMode = FLIGHTSTATUS_FLIGHTMODE_OTHER\<rparr>,
     ManualControlCommand = \<lparr>Throttle = 0, Collective = 0, Accessory = (\<lambda>n. 0)\<rparr>,
     CameraDesired = Some \<lparr>CameraDesiredRoll = 1 / 4, CameraDesiredPitch = 0, CameraDesiredYaw = 3 / 4\<rparr>,
     servo = (\<lambda>n. 0),
     servo_updates = 0,
     actuator_alarm = SYSTEMALARMS_ALARM_OK\<rparr>"

subsection \<open>A servo driven by the throttle curve\<close>

text \<open>
  The configuration above with a mixer cache whose only coefficient is a 1 from the
  first throttle curve to the servo on channel 4, and with a positive throttle
  recorded at the system time 5000. \<open>throttle_servo_disarmed\<close> has the FlightStatus
  object disarmed, \<open>throttle_servo_armed\<close> armed; the update flag of the object is
  set in both.
\<close>

definition throttle_servo_disarmed :: actuator_state where
  "throttle_servo_disarmed =
    quad_state\<lparr>motor_mixer :=
                 (\<lambda>k. if k = 4 * MIXERSETTINGS_MIXER1VECTOR_NUMELEM
                                + MIXERSETTINGS_MIXER1VECTOR_THROTTLECURVE1
                       then Some 1 else Some 0),
               last_pos_throttle_time := 5000\<rparr>"

definition throttle_servo_armed :: actuator_state where
  "throttle_servo_armed =
    throttle_servo_disarmed\<lparr>FlightStatus :=
      \<lparr>Armed = FLIGHTSTATUS_ARMED_ARMED, FlightMode = FLIGHTSTATUS_FLIGHTMODE_OTHER\<rparr>\<rparr>"

subsection \<open>The row that the mixer cache takes\<close>

text \<open>
  The row that \<^verbatim>\<open>compute_one_mixer\<close> writes for the coefficients \<open>vals\<close> and a type
  (lemma \<open>compute_one_mixer_fields\<close>).
\<close>

definition cache_row ::
  "(nat \<Rightarrow> 16 word) \<Rightarrow> MixerSettingsMixer1TypeOptions \<Rightarrow> (nat \<Rightarrow> cfloat)" where
  "cache_row vals type =
    (if type = MIXERSETTINGS_MIXER1TYPE_MOTOR
     then transformActuatorMixture (mixer_row vals type) 0
     else (\<lambda>i. Some (mixer_row vals type i)))"

subsection \<open>The roll saturation scenario\<close>

text \<open>
  Scenario S2 of the specification: four Motor rows with the thrust coefficient 1
  (128 before scaling) and the roll coefficients +1, +1, -1, -1, the other rows
  disabled; armed; desired roll 1, pitch and yaw 0, thrust 1/2; identity curves (the
  interpolation returns its input); LowPowerStabilizationMaxPowerAdd 1/10.
  \<open>s2_motor_vect\<close> is the mixer output of the scenario and \<open>s2_stats\<close> the clip
  statistics of the first loop on it. \<open>idle_desired\<close> is a desired command with no
  thrust.
\<close>

definition s2_mixer :: MixerSettingsData where
  "s2_mixer =
    \<lparr>MixerVector =
       (\<lambda>b i. if b < 4 \<and> i = 0 then 128
              else if b < 2 \<and> i = 2 then 128
              else if b < 4 \<and> i = 2 then - 128
              else 0),
     MixerType =
       (\<lambda>b. if b < 4 then MIXERSETTINGS_MIXER1TYPE_MOTOR else MIXERSETTINGS_MIXER1TYPE_DISABLED)\<rparr>"

definition s2_start :: actuator_state where
  "s2_start =
    quad_state\<lparr>FlightStatus :=
      \<lparr>Armed = FLIGHTSTATUS_ARMED_ARMED, FlightMode = FLIGHTSTATUS_FLIGHTMODE_OTHER\<rparr>\<rparr>"

definition s2_state :: actuator_state where
  "s2_state = compute_mixer s2_start s2_mixer"

definition s2_input :: normalized_input where
  "s2_input = normalize_input_data (\<lambda>x c k lo hi. x) s2_state 1000 (\<lambda>i. 0)"

definition s2_motor_vect :: "nat \<Rightarrow> real" where
  "s2_motor_vect = (\<lambda>n. if n < 2 then 3 / 2 else if n < 4 then - 1 / 2 else 0)"

definition s2_stats :: clip_stats where
  "s2_stats = \<lparr>min_chan = Some (- 1 / 2), max_chan = Some (3 / 2), neg_clip = - 1, num_motors = 4\<rparr>"


section \<open>Properties\<close>

subsection \<open>The loops\<close>

lemma fill_apply: "fill ns f a n = (if n \<in> set ns then f n else a n)"
  by (induction ns arbitrary: a) auto

lemma scanned_value_upd:
  "types_mixer st ct \<noteq> MIXERSETTINGS_MIXER1TYPE_MOTOR \<Longrightarrow>
   types_mixer st ct \<noteq> MIXERSETTINGS_MIXER1TYPE_SERVO \<Longrightarrow>
   types_mixer st ct \<noteq> MIXERSETTINGS_MIXER1TYPE_INVALID \<Longrightarrow>
   scanned_value st (mv(ct := x)) n = scanned_value st mv n"
  by (cases "n = ct") (auto simp: scanned_value_def split: MixerSettingsMixer1TypeOptions.splits)

lemma scan_channels_Inr:
  "scan_channels st cts (mv, cs) = Inr (mv', cs') \<Longrightarrow>
   mv' n = (if n \<in> set cts then scanned_value st mv n else mv n)"
proof (induction cts arbitrary: mv cs)
  case Nil
  then show ?case by simp
next
  case (Cons ct cts)
  show ?case
  proof (cases "types_mixer st ct")
    case MIXERSETTINGS_MIXER1TYPE_DISABLED
    with Cons.prems have "scan_channels st cts (mv(ct := - 1), cs) = Inr (mv', cs')" by simp
    from Cons.IH [OF this] MIXERSETTINGS_MIXER1TYPE_DISABLED show ?thesis
      by (auto simp: scanned_value_upd) (simp add: scanned_value_def)
  next
    case MIXERSETTINGS_MIXER1TYPE_MOTOR
    with Cons.prems obtain cs1 where "scan_channels st cts (mv, cs1) = Inr (mv', cs')" by simp
    from Cons.IH [OF this] MIXERSETTINGS_MIXER1TYPE_MOTOR show ?thesis
      by (auto simp: scanned_value_def)
  next
    case MIXERSETTINGS_MIXER1TYPE_SERVO
    with Cons.prems have "scan_channels st cts (mv, cs) = Inr (mv', cs')" by simp
    from Cons.IH [OF this] MIXERSETTINGS_MIXER1TYPE_SERVO show ?thesis
      by (auto simp: scanned_value_def)
  next
    case MIXERSETTINGS_MIXER1TYPE_CAMERAROLL
    with Cons.prems have "scan_channels st cts (mv(ct := camera_value st CameraDesiredRoll), cs) = Inr (mv', cs')" by simp
    from Cons.IH [OF this] MIXERSETTINGS_MIXER1TYPE_CAMERAROLL show ?thesis
      by (auto simp: scanned_value_upd) (simp add: scanned_value_def)
  next
    case MIXERSETTINGS_MIXER1TYPE_CAMERAPITCH
    with Cons.prems have "scan_channels st cts (mv(ct := camera_value st CameraDesiredPitch), cs) = Inr (mv', cs')" by simp
    from Cons.IH [OF this] MIXERSETTINGS_MIXER1TYPE_CAMERAPITCH show ?thesis
      by (auto simp: scanned_value_upd) (simp add: scanned_value_def)
  next
    case MIXERSETTINGS_MIXER1TYPE_CAMERAYAW
    with Cons.prems have "scan_channels st cts (mv(ct := camera_value st CameraDesiredRoll), cs) = Inr (mv', cs')" by simp
    from Cons.IH [OF this] MIXERSETTINGS_MIXER1TYPE_CAMERAYAW show ?thesis
      by (auto simp: scanned_value_upd) (simp add: scanned_value_def)
  next
    case MIXERSETTINGS_MIXER1TYPE_INVALID
    with Cons.prems show ?thesis by simp
  qed
qed

lemma commit_channels_apply:
  "distinct cts \<Longrightarrow>
   commit_channels pw st a s b g off cts (mv, ch) = (mv', ch') \<Longrightarrow>
   mv' n = (if n \<in> set cts then motor_protect pw st a s b g off n (mv n) else mv n) \<and>
   ch' n = (if n \<in> set cts then scale_channel st (motor_protect pw st a s b g off n (mv n)) n
            else ch n)"
proof (induction cts arbitrary: mv ch)
  case Nil
  then show ?case by simp
next
  case (Cons ct cts)
  let ?v = "motor_protect pw st a s b g off ct (mv ct)"
  from Cons.prems have d: "distinct cts" and nin: "ct \<notin> set cts" by auto
  from Cons.prems have
    "commit_channels pw st a s b g off cts (mv(ct := ?v), ch(ct := scale_channel st ?v ct)) = (mv', ch')"
    by (simp add: Let_def)
  from Cons.IH [OF d this] nin show ?case by auto
qed

lemma scan_channels_Inl:
  "scan_channels st cts (mv, cs) = Inl fault \<Longrightarrow> fault = AssertFailed (set_failsafe st)"
proof (induction cts arbitrary: mv cs)
  case Nil
  then show ?case by simp
next
  case (Cons ct cts)
  then show ?case
    by (cases "types_mixer st ct") simp_all
qed

lemma scan_channels_valid:
  "\<forall>ct \<in> set cts. types_mixer st ct \<noteq> MIXERSETTINGS_MIXER1TYPE_INVALID \<Longrightarrow>
   \<exists>r. scan_channels st cts (mv, cs) = Inr r"
proof (induction cts arbitrary: mv cs)
  case Nil
  then show ?case by simp
next
  case (Cons ct cts)
  then show ?case
    by (cases "types_mixer st ct") simp_all
qed

lemma set_failsafe_fields:
  "actuator_alarm (set_failsafe st) = SYSTEMALARMS_ALARM_CRITICAL"
  "servo_updates (set_failsafe st) = Suc (servo_updates st)"
  "n < MAX_MIX_ACTUATORS \<Longrightarrow>
     Channel (ActuatorCommand (set_failsafe st)) n = channel_failsafe_value st n"
  "n < MAX_MIX_ACTUATORS \<Longrightarrow> servo (set_failsafe st) n = channel_failsafe_value st n"
  by (simp_all add: set_failsafe_def Let_def fill_apply)

lemma post_process_Inl:
  "post_process_scale_and_commit pw st mv dT a s b = Inl fault \<Longrightarrow>
   fault = AssertFailed (set_failsafe st)"
  unfolding post_process_scale_and_commit_def
  by (auto simp: Let_def split_def split: sum.splits dest: scan_channels_Inl)

lemma post_process_Inr:
  assumes r: "post_process_scale_and_commit pw st mv dT a s b = Inr (mv2, st2)"
    and n: "n < MAX_MIX_ACTUATORS"
  shows "\<exists>cs. mv2 n =
           motor_protect pw st a s b (fst (clip_gain_offset st cs)) (snd (clip_gain_offset st cs))
             n (scanned_value st mv n)
         \<and> (\<not> ActuatorCommandReadOnly st \<longrightarrow>
              Channel (ActuatorCommand st2) n = scale_channel st (mv2 n) n
              \<and> servo st2 n = scale_channel st (mv2 n) n)
         \<and> (ActuatorCommandReadOnly st \<longrightarrow>
              ActuatorCommand st2 = ActuatorCommand st
              \<and> servo st2 n = Channel (ActuatorCommand st) n)"
proof -
  from r obtain mv1 cs where
    sc: "scan_channels st [0..<MAX_MIX_ACTUATORS] (mv, clip_stats_init) = Inr (mv1, cs)"
    unfolding post_process_scale_and_commit_def by (auto split: sum.splits)
  obtain mvc ch where
    cc: "commit_channels pw st a s b (fst (clip_gain_offset st cs)) (snd (clip_gain_offset st cs))
           [0..<MAX_MIX_ACTUATORS] (mv1, \<lambda>n. 0) = (mvc, ch)"
    by (cases "commit_channels pw st a s b (fst (clip_gain_offset st cs))
                 (snd (clip_gain_offset st cs)) [0..<MAX_MIX_ACTUATORS] (mv1, \<lambda>n. 0)") auto
  from r sc cc have mv2: "mv2 = mvc"
    unfolding post_process_scale_and_commit_def by (simp add: Let_def split_def)
  from r sc cc have ro: "ActuatorCommandReadOnly st \<Longrightarrow>
      ActuatorCommand st2 = ActuatorCommand st \<and> servo st2 n = Channel (ActuatorCommand st) n"
    unfolding post_process_scale_and_commit_def
    using n by (auto simp: Let_def split_def fill_apply)
  from r sc cc have rw: "\<not> ActuatorCommandReadOnly st \<Longrightarrow>
      Channel (ActuatorCommand st2) n = ch n \<and> servo st2 n = ch n"
    unfolding post_process_scale_and_commit_def
    using n by (auto simp: Let_def split_def fill_apply)
  from scan_channels_Inr [OF sc, of n] n have m1: "mv1 n = scanned_value st mv n" by simp
  from commit_channels_apply [OF _ cc, of n] n m1 have
    "mvc n = motor_protect pw st a s b (fst (clip_gain_offset st cs)) (snd (clip_gain_offset st cs))
               n (scanned_value st mv n)"
    "ch n = scale_channel st (mvc n) n"
    by simp_all
  with mv2 ro rw show ?thesis by auto
qed

lemma final_state_Inr:
  assumes valid: "\<forall>ct<MAX_MIX_ACTUATORS. types_mixer st ct \<noteq> MIXERSETTINGS_MIXER1TYPE_INVALID"
  shows "\<exists>mv2. post_process_scale_and_commit pw st mv dT a s b =
           Inr (mv2, final_state (post_process_scale_and_commit pw st mv dT a s b))"
proof -
  from valid have "\<forall>ct \<in> set [0..<MAX_MIX_ACTUATORS]. types_mixer st ct \<noteq> MIXERSETTINGS_MIXER1TYPE_INVALID"
    by simp
  from scan_channels_valid [OF this] obtain r where
    "scan_channels st [0..<MAX_MIX_ACTUATORS] (mv, clip_stats_init) = Inr r" by blast
  then show ?thesis
    unfolding post_process_scale_and_commit_def
    by (cases r) (simp add: Let_def split_def)
qed

lemma scale_channel_min: "scale_channel st (- 1) n = ChannelMin (actuatorSettings st) n"
  by (simp add: scale_channel_def Let_def)

lemma scale_channel_range:
  "min (ChannelMin (actuatorSettings st) n) (ChannelMax (actuatorSettings st) n) \<le> scale_channel st v n \<and>
   scale_channel st v n \<le> max (ChannelMin (actuatorSettings st) n) (ChannelMax (actuatorSettings st) n)"
  by (simp add: scale_channel_def Let_def min_def max_def)

lemma normalize_frame:
  "types_mixer (ni_state (normalize_input_data li st t dv)) = types_mixer st"
  "actuatorSettings (ni_state (normalize_input_data li st t dv)) = actuatorSettings st"
  "ActuatorCommandReadOnly (ni_state (normalize_input_data li st t dv)) = ActuatorCommandReadOnly st"
  "ActuatorCommand (ni_state (normalize_input_data li st t dv)) = ActuatorCommand st"
  "CameraDesired (ni_state (normalize_input_data li st t dv)) = CameraDesired st"
  "flightStatus (ni_state (normalize_input_data li st t dv)) = flightStatus (fetch_flight_status st)"
  "ni_armed (normalize_input_data li st t dv) =
     (Armed (flightStatus (fetch_flight_status st)) = FLIGHTSTATUS_ARMED_ARMED)"
  by (simp_all add: normalize_input_data_def Let_def split_def fetch_flight_status_def
        fetch_manual_control_def)

lemma motor_protect_disarmed:
  "types_mixer st n = MIXERSETTINGS_MIXER1TYPE_MOTOR \<Longrightarrow>
   motor_protect pw st False s b g off n v = - 1"
  by (simp add: motor_protect_def)

lemma motor_protect_other:
  "types_mixer st n \<noteq> MIXERSETTINGS_MIXER1TYPE_MOTOR \<Longrightarrow>
   motor_protect pw st a s b g off n v = v"
  by (simp add: motor_protect_def)

lemma quad_valid:
  "\<forall>ct<MAX_MIX_ACTUATORS. types_mixer quad_state ct \<noteq> MIXERSETTINGS_MIXER1TYPE_INVALID"
  by (simp add: quad_state_def quad_types_def)

lemma post_process_final:
  assumes valid: "\<forall>ct<MAX_MIX_ACTUATORS. types_mixer st ct \<noteq> MIXERSETTINGS_MIXER1TYPE_INVALID"
    and n: "n < MAX_MIX_ACTUATORS"
    and fin: "fin = final_state (post_process_scale_and_commit pw st mv dT a s b)"
  shows "\<exists>g off.
           (\<not> ActuatorCommandReadOnly st \<longrightarrow>
              Channel (ActuatorCommand fin) n =
                scale_channel st (motor_protect pw st a s b g off n (scanned_value st mv n)) n
              \<and> servo fin n =
                scale_channel st (motor_protect pw st a s b g off n (scanned_value st mv n)) n)
         \<and> (ActuatorCommandReadOnly st \<longrightarrow>
              ActuatorCommand fin = ActuatorCommand st
              \<and> servo fin n = Channel (ActuatorCommand st) n)"
proof -
  from final_state_Inr [OF valid, of pw mv dT a s b] fin obtain mv2 where
    r: "post_process_scale_and_commit pw st mv dT a s b = Inr (mv2, fin)" by auto
  from post_process_Inr [OF r n] show ?thesis by metis
qed

lemma post_process_fault_final:
  "post_process_scale_and_commit pw st mv dT a s b = Inl fault \<Longrightarrow>
   final_state (post_process_scale_and_commit pw st mv dT a' s' b') = set_failsafe st"
proof -
  assume "post_process_scale_and_commit pw st mv dT a s b = Inl fault"
  then obtain f where "scan_channels st [0..<MAX_MIX_ACTUATORS] (mv, clip_stats_init) = Inl f"
    unfolding post_process_scale_and_commit_def
    by (auto simp: Let_def split_def split: sum.splits)
  moreover from this have "f = AssertFailed (set_failsafe st)" by (rule scan_channels_Inl)
  ultimately show ?thesis
    unfolding post_process_scale_and_commit_def by simp
qed

subsection \<open>Input normalisation\<close>

lemma normalize_mixer:
  "motor_mixer (ni_state (normalize_input_data li st t dv)) = motor_mixer st"
  by (simp add: normalize_input_data_def Let_def split_def fetch_flight_status_def
        fetch_manual_control_def)






subsection \<open>The tilt transform and the mixer cache\<close>

lemma upt3: "[0..<3] = [0, 1, 2]"
  by (simp add: upt_rec)

lemma matrix_mul_check_3:
  "matrix_mul_check a b 3 3 i =
     fl_add (fl_add (fl_add (Some 0) (fl_mul (a (i * 3)) (b 0))) (fl_mul (a (i * 3 + 1)) (b 1)))
       (fl_mul (a (i * 3 + 2)) (b 2))"
  by (simp add: matrix_mul_check_def upt3)

lemma transform_identity:
  assumes "motormix 0 \<noteq> 0"
  shows "transformActuatorMixture motormix 0 i = Some (motormix i)"
  using assms
  by (simp add: transformActuatorMixture_def Let_def matrix_mul_check_3 matrix_add_check_def
        CrossProduct_def vec3_def fl_div_def)

lemma transform_zero_thrust:
  assumes "motormix 0 = 0"
  shows "transformActuatorMixture motormix theta 2 = None"
        "transformActuatorMixture motormix theta 3 = None"
        "transformActuatorMixture motormix theta 4 = None"
        "transformActuatorMixture motormix theta 0 = Some 0"
  using assms
  by (simp_all add: transformActuatorMixture_def Let_def matrix_mul_check_3 matrix_add_check_def
        CrossProduct_def vec3_def fl_div_def)

lemma compute_one_mixer_fields:
  "types_mixer (compute_one_mixer st mixnum vals type) = (types_mixer st)(mixnum := type)"
  "motor_mixer (compute_one_mixer st mixnum vals type) k =
     (if mixnum * MIXERSETTINGS_MIXER1VECTOR_NUMELEM \<le> k
         \<and> k < mixnum * MIXERSETTINGS_MIXER1VECTOR_NUMELEM + MIXERSETTINGS_MIXER1VECTOR_NUMELEM
      then cache_row vals type (k - mixnum * MIXERSETTINGS_MIXER1VECTOR_NUMELEM)
      else motor_mixer st k)"
  by (auto simp: compute_one_mixer_def Let_def fill_apply cache_row_def)

lemma compute_one_mixer_frame:
  "actuatorSettings (compute_one_mixer st mixnum vals type) = actuatorSettings st"
  "ActuatorDesired (compute_one_mixer st mixnum vals type) = ActuatorDesired st"
  by (simp_all add: compute_one_mixer_def Let_def)

lemma compute_mixer_rows_types:
  "types_mixer (compute_mixer_rows st ms bs) b =
     (if b \<in> set bs then MixerType ms b else types_mixer st b)"
  by (induction bs arbitrary: st) (auto simp: compute_one_mixer_fields)

lemma compute_one_mixer_other_row:
  assumes "c \<noteq> b" and i: "i < MIXERSETTINGS_MIXER1VECTOR_NUMELEM"
  shows "motor_mixer (compute_one_mixer st c vals type) (b * MIXERSETTINGS_MIXER1VECTOR_NUMELEM + i)
          = motor_mixer st (b * MIXERSETTINGS_MIXER1VECTOR_NUMELEM + i)"
proof -
  let ?V = MIXERSETTINGS_MIXER1VECTOR_NUMELEM
  from assms have "c < b \<or> b < c" by auto
  then have "\<not> (c * ?V \<le> b * ?V + i \<and> b * ?V + i < c * ?V + ?V)"
  proof
    assume "c < b"
    then have "Suc c \<le> b" by simp
    then have "Suc c * ?V \<le> b * ?V" by (rule mult_le_mono1)
    then show ?thesis by simp
  next
    assume "b < c"
    then have "Suc b \<le> c" by simp
    then have "Suc b * ?V \<le> c * ?V" by (rule mult_le_mono1)
    with i show ?thesis by simp
  qed
  then show ?thesis by (simp only: compute_one_mixer_fields if_False)
qed

lemma compute_mixer_rows_other:
  "b \<notin> set bs \<Longrightarrow> i < MIXERSETTINGS_MIXER1VECTOR_NUMELEM \<Longrightarrow>
   motor_mixer (compute_mixer_rows st ms bs) (b * MIXERSETTINGS_MIXER1VECTOR_NUMELEM + i)
     = motor_mixer st (b * MIXERSETTINGS_MIXER1VECTOR_NUMELEM + i)"
  by (induction bs arbitrary: st) (simp_all add: compute_one_mixer_other_row)

lemma compute_mixer_rows_cache:
  "distinct bs \<Longrightarrow> b \<in> set bs \<Longrightarrow> i < MIXERSETTINGS_MIXER1VECTOR_NUMELEM \<Longrightarrow>
   motor_mixer (compute_mixer_rows st ms bs) (b * MIXERSETTINGS_MIXER1VECTOR_NUMELEM + i) =
     cache_row (MixerVector ms b) (MixerType ms b) i"
proof (induction bs arbitrary: st)
  case Nil
  then show ?case by simp
next
  case (Cons a bs)
  show ?case
  proof (cases "b = a")
    case True
    with Cons.prems have "b \<notin> set bs" by simp
    from compute_mixer_rows_other [OF this Cons.prems(3)] True Cons.prems(3) show ?thesis
      by (simp add: compute_one_mixer_fields)
  next
    case False
    with Cons show ?thesis by simp
  qed
qed

lemma upt8: "[0..<8] = [0, 1, 2, 3, 4, 5, 6, 7]"
  by (simp add: upt_rec)

lemma upt10: "[0..<10] = [0, 1, 2, 3, 4, 5, 6, 7, 8, 9]"
  by (simp add: upt_rec)

subsection \<open>The scenario, evaluated\<close>

lemma s2_cache:
  "b < 10 \<Longrightarrow> i < 8 \<Longrightarrow>
   motor_mixer s2_state (b * 8 + i) =
     Some (if b < 4 \<and> i = 0 then 1 else if b < 2 \<and> i = 2 then 1 else if b < 4 \<and> i = 2 then - 1 else 0)"
proof -
  assume b: "b < 10" and i: "i < 8"
  have "motor_mixer s2_state (b * MIXERSETTINGS_MIXER1VECTOR_NUMELEM + i) =
     cache_row (MixerVector s2_mixer b) (MixerType s2_mixer b) i"
    unfolding s2_state_def compute_mixer_def
    using b i by (intro compute_mixer_rows_cache)
      (simp_all add: MAX_MIX_ACTUATORS_def MIXERSETTINGS_MIXER1VECTOR_NUMELEM_def)
  then have eq: "motor_mixer s2_state (b * 8 + i) = cache_row (MixerVector s2_mixer b) (MixerType s2_mixer b) i"
    by (simp add: MIXERSETTINGS_MIXER1VECTOR_NUMELEM_def)
  show ?thesis
  proof (cases "b < 4")
    case True
    then have "mixer_row (MixerVector s2_mixer b) MIXERSETTINGS_MIXER1TYPE_MOTOR 0 \<noteq> 0"
      by (simp add: mixer_row_def s2_mixer_def MIXER_SCALE_def)
    with transform_identity [of "mixer_row (MixerVector s2_mixer b) MIXERSETTINGS_MIXER1TYPE_MOTOR" i]
      True eq show ?thesis
      by (simp add: cache_row_def s2_mixer_def mixer_row_def MIXER_SCALE_def)
  next
    case False
    with eq show ?thesis
      by (simp add: cache_row_def s2_mixer_def mixer_row_def)
  qed
qed

lemma compute_one_mixer_frame2:
  "airframe_type (compute_one_mixer st c vals type) = airframe_type st"
  "curve1 (compute_one_mixer st c vals type) = curve1 st"
  "curve2 (compute_one_mixer st c vals type) = curve2 st"
  "curve2_src (compute_one_mixer st c vals type) = curve2_src st"
  "flight_status_updated (compute_one_mixer st c vals type) = flight_status_updated st"
  "manual_control_cmd_updated (compute_one_mixer st c vals type) = manual_control_cmd_updated st"
  "manual_throt (compute_one_mixer st c vals type) = manual_throt st"
  "flightStatus (compute_one_mixer st c vals type) = flightStatus st"
  "last_pos_throttle_time (compute_one_mixer st c vals type) = last_pos_throttle_time st"
  "FlightStatus (compute_one_mixer st c vals type) = FlightStatus st"
  "ManualControlCommand (compute_one_mixer st c vals type) = ManualControlCommand st"
  "actuatorSettings (compute_one_mixer st c vals type) = actuatorSettings st"
  "ActuatorDesired (compute_one_mixer st c vals type) = ActuatorDesired st"
  by (simp_all add: compute_one_mixer_def Let_def)

lemma compute_mixer_rows_frame:
  "airframe_type (compute_mixer_rows st ms bs) = airframe_type st"
  "curve1 (compute_mixer_rows st ms bs) = curve1 st"
  "curve2 (compute_mixer_rows st ms bs) = curve2 st"
  "curve2_src (compute_mixer_rows st ms bs) = curve2_src st"
  "flight_status_updated (compute_mixer_rows st ms bs) = flight_status_updated st"
  "manual_control_cmd_updated (compute_mixer_rows st ms bs) = manual_control_cmd_updated st"
  "manual_throt (compute_mixer_rows st ms bs) = manual_throt st"
  "flightStatus (compute_mixer_rows st ms bs) = flightStatus st"
  "last_pos_throttle_time (compute_mixer_rows st ms bs) = last_pos_throttle_time st"
  "FlightStatus (compute_mixer_rows st ms bs) = FlightStatus st"
  "ManualControlCommand (compute_mixer_rows st ms bs) = ManualControlCommand st"
  "actuatorSettings (compute_mixer_rows st ms bs) = actuatorSettings st"
  "ActuatorDesired (compute_mixer_rows st ms bs) = ActuatorDesired st"
  by (induction bs arbitrary: st) (simp_all add: compute_one_mixer_frame2)

lemma s2_input_fields:
  "ni_armed s2_input" "ni_stabilize_now s2_input" "\<not> ni_spin_while_armed s2_input"
  "ni_throttle_val s2_input = 1 / 2"
  "ni_desired_vect s2_input = (\<lambda>i. 0)(0 := 1 / 2, 1 := 1 / 2, 2 := 1, 3 := 0, 4 := 0, 5 := 0, 6 := 0, 7 := 0)"
  by (simp_all add: s2_input_def normalize_input_data_def Let_def split_def hangtime_def
        throttle_source_def fetch_flight_status_def fetch_manual_control_def fetch_accessories_def
        s2_state_def compute_mixer_def s2_start_def quad_state_def quad_settings_def
        throt_curve_def collective_curve_def fill_desired_vector_def fill_apply
        compute_mixer_rows_frame
        MIXERSETTINGS_MIXER1VECTOR_THROTTLECURVE1_def MIXERSETTINGS_MIXER1VECTOR_THROTTLECURVE2_def
        MIXERSETTINGS_MIXER1VECTOR_ROLL_def MIXERSETTINGS_MIXER1VECTOR_PITCH_def
        MIXERSETTINGS_MIXER1VECTOR_YAW_def MIXERSETTINGS_MIXER1VECTOR_ACCESSORY0_def
        MANUALCONTROLCOMMAND_ACCESSORY_NUMELEM_def fun_eq_iff)

lemma s2_mix:
  assumes n: "n < 10"
  shows "mix_desired (ni_state s2_input) (ni_desired_vect s2_input) n = Some (s2_motor_vect n)"
proof -
  have mm: "motor_mixer (ni_state s2_input) = motor_mixer s2_state"
    by (simp add: s2_input_def normalize_mixer)
  note c = s2_cache [OF n]
  from c [of 0] c [of 1] c [of 2] c [of 3] c [of 4] c [of 5] c [of 6] c [of 7]
  show ?thesis
    by (simp add: mix_desired_def matrix_mul_check_def MIXERSETTINGS_MIXER1VECTOR_NUMELEM_def
          upt8 mm s2_input_fields s2_motor_vect_def)
qed

lemma s2_mix_all:
  "map (mix_desired (ni_state s2_input) (ni_desired_vect s2_input)) [0..<MAX_MIX_ACTUATORS]
     = map (\<lambda>n. Some (s2_motor_vect n)) [0..<MAX_MIX_ACTUATORS]"
  by (rule map_cong) (simp_all add: MAX_MIX_ACTUATORS_def s2_mix)

lemma s2_types:
  "types_mixer (ni_state s2_input) n =
     (if n < 4 then MIXERSETTINGS_MIXER1TYPE_MOTOR
      else if n < 10 then MIXERSETTINGS_MIXER1TYPE_DISABLED else quad_types n)"
  by (simp add: s2_input_def normalize_frame s2_state_def compute_mixer_def compute_mixer_rows_types
        MAX_MIX_ACTUATORS_def s2_mixer_def s2_start_def quad_state_def)

lemma s2_scan:
  "map_sum id snd (scan_channels (ni_state s2_input) [0..<MAX_MIX_ACTUATORS]
      (s2_motor_vect, clip_stats_init))
   = Inr s2_stats"
  by (simp add: MAX_MIX_ACTUATORS_def upt10 s2_types clip_stats_init_def s2_motor_vect_def
        fminf_chan_def fmaxf_chan_def s2_stats_def)

lemma s2_gain_offset:
  "clip_gain_offset (ni_state s2_input) s2_stats
   = (1 / 2, - 3 / 20)"
  by (simp add: clip_gain_offset_def Let_def s2_input_def normalize_frame s2_state_def
        compute_mixer_def compute_mixer_rows_frame s2_start_def quad_state_def quad_settings_def
        s2_stats_def)

lemma post_process_motor_vect:
  assumes sc: "scan_channels st [0..<MAX_MIX_ACTUATORS] (mv, clip_stats_init) = Inr (mv1, cs)"
    and n: "n < MAX_MIX_ACTUATORS"
  shows "\<exists>mv2 st2. post_process_scale_and_commit pw st mv dT a s b = Inr (mv2, st2)
           \<and> mv2 n = motor_protect pw st a s b (fst (clip_gain_offset st cs))
                        (snd (clip_gain_offset st cs)) n (mv1 n)"
proof -
  obtain mvc ch where
    cc: "commit_channels pw st a s b (fst (clip_gain_offset st cs)) (snd (clip_gain_offset st cs))
           [0..<MAX_MIX_ACTUATORS] (mv1, \<lambda>n. 0) = (mvc, ch)"
    by (cases "commit_channels pw st a s b (fst (clip_gain_offset st cs))
                 (snd (clip_gain_offset st cs)) [0..<MAX_MIX_ACTUATORS] (mv1, \<lambda>n. 0)") auto
  from sc cc have "\<exists>st2. post_process_scale_and_commit pw st mv dT a s b = Inr (mvc, st2)"
    unfolding post_process_scale_and_commit_def by (simp add: Let_def split_def)
  moreover from commit_channels_apply [OF _ cc, of n] n have
    "mvc n = motor_protect pw st a s b (fst (clip_gain_offset st cs)) (snd (clip_gain_offset st cs))
               n (mv1 n)"
    by simp
  ultimately show ?thesis by blast
qed

lemma s2_settings:
  "MotorInputOutputCurveFit (actuatorSettings (ni_state s2_input)) = 1"
  by (simp add: s2_input_def normalize_frame s2_state_def
        compute_mixer_def compute_mixer_rows_frame s2_start_def quad_state_def quad_settings_def)

lemma s2_final:
  "map_sum id (\<lambda>(mv2, st2). map mv2 [0, 1, 2, 3])
     (post_process_scale_and_commit pw (ni_state s2_input) s2_motor_vect dT True False True)
   = Inr [pw (3 / 5) 1, pw (3 / 5) 1, 0, 0]"
proof -
  let ?st = "ni_state s2_input"
  let ?cs = "s2_stats"
  from s2_scan obtain mv1 where
    sc: "scan_channels ?st [0..<MAX_MIX_ACTUATORS] (s2_motor_vect, clip_stats_init) = Inr (mv1, ?cs)"
    by (cases "scan_channels ?st [0..<MAX_MIX_ACTUATORS] (s2_motor_vect, clip_stats_init)") auto
  have m1: "mv1 n = s2_motor_vect n" if "n < 4" for n
    using scan_channels_Inr [OF sc, of n] that
    by (simp add: MAX_MIX_ACTUATORS_def scanned_value_def s2_types)
  obtain r where r: "post_process_scale_and_commit pw ?st s2_motor_vect dT True False True = r"
    by simp
  have v: "\<exists>mv2 st2. r = Inr (mv2, st2)
        \<and> mv2 n = motor_protect pw ?st True False True (1 / 2) (- 3 / 20) n (s2_motor_vect n)"
    if "n < 4" for n
    using post_process_motor_vect [OF sc, of n pw dT True False True] that r
    by (simp add: MAX_MIX_ACTUATORS_def s2_gain_offset m1)
  from v [of 0] obtain mv2 st2 where r2: "r = Inr (mv2, st2)" by auto
  from v [of 0] v [of 1] v [of 2] v [of 3] r2 have
    "mv2 0 = pw (3 / 5) 1" "mv2 1 = pw (3 / 5) 1" "mv2 2 = 0" "mv2 3 = 0"
    by (simp_all add: motor_protect_def s2_types s2_motor_vect_def s2_settings)
  with r r2 show ?thesis by simp
qed

subsection \<open>The interlock\<close>

lemma unat_100_minus:
  fixes k :: "32 word"
  shows "100 < unat (100 - k) \<longleftrightarrow> 100 < unat k"
proof -
  have u: "unat (100 - k) = (if unat k \<le> 100 then 100 - unat k else 100 + 2 ^ 32 - unat k)"
    using unat_sub_if_size [of 100 k] by (simp add: word_size)
  have b: "unat k < 2 ^ 32" using unsigned_less [of k, where ?'a = nat] by simp
  from u b show ?thesis by (cases "unat k \<le> 100") simp_all
qed

lemma expiry_elapsed:
  fixes entry now :: "32 word"
  shows "100 < unat (entry + 100 - now) \<longleftrightarrow> 100 < unat (now - entry)"
proof -
  have e: "entry + 100 - now = 100 - (now - entry)" by simp
  show ?thesis unfolding e by (rule unat_100_minus)
qed

lemma interlock_body_flag:
  "actuator_interlock (interlock_body exp_time now st) =
     (if actuator_interlock st = ACTUATOR_INTERLOCK_STOPREQUEST \<and> 100 < unat (exp_time - now)
      then ACTUATOR_INTERLOCK_STOPPED else actuator_interlock st)"
  by (simp add: interlock_body_def Let_def set_failsafe_def)

lemma interlock_body_outputs:
  "actuator_interlock st = ACTUATOR_INTERLOCK_STOPREQUEST \<Longrightarrow>
   servo (interlock_body exp_time now st) = servo (set_failsafe st)
   \<and> ActuatorCommand (interlock_body exp_time now st) = ActuatorCommand (set_failsafe st)
   \<and> actuator_alarm (interlock_body exp_time now st) = actuator_alarm (set_failsafe st)
   \<and> servo_updates (interlock_body exp_time now st) = servo_updates (set_failsafe st)"
  by (simp add: interlock_body_def Let_def)

lemma set_failsafe_frame:
  "types_mixer (set_failsafe st) = types_mixer st"
  "actuatorSettings (set_failsafe st) = actuatorSettings st"
  "actuator_interlock (set_failsafe st) = actuator_interlock st"
  by (simp_all add: set_failsafe_def Let_def)

lemma channel_failsafe_value_cong:
  "types_mixer a = types_mixer b \<Longrightarrow> actuatorSettings a = actuatorSettings b \<Longrightarrow>
   channel_failsafe_value a n = channel_failsafe_value b n"
  by (cases "types_mixer b n") simp_all

lemma interlock_loop_stopped:
  "\<forall>ev \<in> set evs. he_write ev = None \<Longrightarrow>
   actuator_interlock s = ACTUATOR_INTERLOCK_STOPPED \<Longrightarrow>
   interlock_loop exp_time evs s = Holding s"
  by (induction evs) (simp_all add: interlock_body_def external_write_def)

lemma interlock_loop_request:
  fixes entry :: "32 word"
  assumes quiet: "\<forall>ev \<in> set evs. he_write ev = None"
    and rq: "actuator_interlock s = ACTUATOR_INTERLOCK_STOPREQUEST"
  shows "\<exists>h. interlock_loop (entry + 100) evs s = Holding h
           \<and> types_mixer h = types_mixer s
           \<and> actuatorSettings h = actuatorSettings s
           \<and> actuator_interlock h =
               (if length (takeWhile (\<lambda>ev. \<not> 100 < unat (he_systime ev - entry)) evs) < length evs
                then ACTUATOR_INTERLOCK_STOPPED else ACTUATOR_INTERLOCK_STOPREQUEST)
           \<and> servo_updates h = servo_updates s +
               (if length (takeWhile (\<lambda>ev. \<not> 100 < unat (he_systime ev - entry)) evs) < length evs
                then Suc (length (takeWhile (\<lambda>ev. \<not> 100 < unat (he_systime ev - entry)) evs))
                else length evs)
           \<and> (evs \<noteq> [] \<longrightarrow>
                actuator_alarm h = SYSTEMALARMS_ALARM_CRITICAL
                \<and> (\<forall>n<MAX_MIX_ACTUATORS.
                      servo h n = channel_failsafe_value s n
                      \<and> Channel (ActuatorCommand h) n = channel_failsafe_value s n))"
  using quiet rq
proof (induction evs arbitrary: s)
  case Nil
  then show ?case by simp
next
  case (Cons ev evs)
  let ?s1 = "set_failsafe s"
  from Cons.prems have w: "he_write ev = None" and q: "\<forall>ev \<in> set evs. he_write ev = None"
    by simp_all
  from Cons.prems have rq: "actuator_interlock s = ACTUATOR_INTERLOCK_STOPREQUEST" by simp
  show ?case
  proof (cases "100 < unat (he_systime ev - entry)")
    case True
    let ?s2 = "?s1\<lparr>actuator_interlock := ACTUATOR_INTERLOCK_STOPPED\<rparr>"
    have pass: "external_write ev (interlock_body (entry + 100) (he_systime ev) s) = ?s2"
      using True rq w by (simp add: interlock_body_def external_write_def Let_def expiry_elapsed)
    have "interlock_loop (entry + 100) evs ?s2 = Holding ?s2"
      using q by (rule interlock_loop_stopped) simp
    with pass rq have "interlock_loop (entry + 100) (ev # evs) s = Holding ?s2" by simp
    with True show ?thesis by (simp add: set_failsafe_frame set_failsafe_fields)
  next
    case False
    have pass: "external_write ev (interlock_body (entry + 100) (he_systime ev) s) = ?s1"
      using False rq w by (simp add: interlock_body_def external_write_def Let_def expiry_elapsed)
    have rq1: "actuator_interlock ?s1 = ACTUATOR_INTERLOCK_STOPREQUEST"
      using rq by (simp add: set_failsafe_frame)
    from Cons.IH [OF q rq1] obtain h where
      h: "interlock_loop (entry + 100) evs ?s1 = Holding h"
        "types_mixer h = types_mixer ?s1"
        "actuatorSettings h = actuatorSettings ?s1"
        "actuator_interlock h =
               (if length (takeWhile (\<lambda>ev. \<not> 100 < unat (he_systime ev - entry)) evs) < length evs
                then ACTUATOR_INTERLOCK_STOPPED else ACTUATOR_INTERLOCK_STOPREQUEST)"
        "servo_updates h = servo_updates ?s1 +
               (if length (takeWhile (\<lambda>ev. \<not> 100 < unat (he_systime ev - entry)) evs) < length evs
                then Suc (length (takeWhile (\<lambda>ev. \<not> 100 < unat (he_systime ev - entry)) evs))
                else length evs)"
        "evs \<noteq> [] \<longrightarrow>
                actuator_alarm h = SYSTEMALARMS_ALARM_CRITICAL
                \<and> (\<forall>n<MAX_MIX_ACTUATORS.
                      servo h n = channel_failsafe_value ?s1 n
                      \<and> Channel (ActuatorCommand h) n = channel_failsafe_value ?s1 n)"
      by blast
    have cfv: "channel_failsafe_value ?s1 n = channel_failsafe_value s n" for n
      by (rule channel_failsafe_value_cong) (simp_all add: set_failsafe_frame)
    from pass rq h(1) have l: "interlock_loop (entry + 100) (ev # evs) s = Holding h" by simp
    have out: "actuator_alarm h = SYSTEMALARMS_ALARM_CRITICAL
                \<and> (\<forall>n<MAX_MIX_ACTUATORS.
                      servo h n = channel_failsafe_value s n
                      \<and> Channel (ActuatorCommand h) n = channel_failsafe_value s n)"
    proof (cases evs)
      case Nil
      with h(1) rq1 have "h = ?s1" by simp
      then show ?thesis by (simp add: set_failsafe_fields)
    next
      case (Cons e es)
      with h(6) cfv show ?thesis by simp
    qed
    from l h(2,3,4,5) out False show ?thesis
      by (simp add: set_failsafe_frame set_failsafe_fields)
  qed
qed

lemma interlock_loop_holds:
  "\<forall>ev \<in> set evs. he_write ev \<noteq> Some ACTUATOR_INTERLOCK_OK \<Longrightarrow>
   actuator_interlock s \<noteq> ACTUATOR_INTERLOCK_OK \<Longrightarrow>
   \<exists>h. interlock_loop exp_time evs s = Holding h \<and> actuator_interlock h \<noteq> ACTUATOR_INTERLOCK_OK"
proof (induction evs arbitrary: s)
  case Nil
  then show ?case by simp
next
  case (Cons ev evs)
  let ?s' = "external_write ev (interlock_body exp_time (he_systime ev) s)"
  from Cons.prems have w: "he_write ev \<noteq> Some ACTUATOR_INTERLOCK_OK" by simp
  have "actuator_interlock ?s' \<noteq> ACTUATOR_INTERLOCK_OK"
    using Cons.prems(2) w
    by (cases "he_write ev") (simp_all add: external_write_def interlock_body_flag)
  with Cons show ?case by simp
qed

lemma interlock_loop_append:
  "interlock_loop exp_time evs s = Holding h \<Longrightarrow>
   interlock_loop exp_time (evs @ rest) s = interlock_loop exp_time rest h"
proof (induction evs arbitrary: s)
  case Nil
  then show ?case by (cases rest) (simp_all split: if_splits)
next
  case (Cons ev evs)
  then show ?case by (simp split: if_splits)
qed

subsection \<open>Disarmed motors\<close>

text \<open>
  Claim C1, as amended. The FlightStatus that a tick works with is the one the task
  holds after \<^verbatim>\<open>normalize_input_data\<close> has fetched it: the FlightStatus object when
  its update flag is set, the copy of an earlier fetch otherwise. In a tick where this
  FlightStatus is not Armed, the tick is not armed, and with an ActuatorCommand that
  is not read-only every channel of type Motor is published in ActuatorCommand and
  given to the servo driver at the ChannelMin of the channel, whatever the mixer
  output \<open>motor_vect\<close>, the gain and offset, the spin-while-armed setting and the
  curve fit \<open>powapprox\<close>. This holds also when a row of no known type fails the
  assertion, since the failsafe has then been set. With a read-only ActuatorCommand
  and rows of known types the tick publishes nothing: ActuatorCommand is as it was,
  and the servo driver gets the channels that are in the object.
\<close>

theorem disarmed_motor_channel_min:
  assumes nz: "nz = normalize_input_data li st this_systime desired_vect"
    and held: "held = (if flight_status_updated st then FlightStatus st else flightStatus st)"
    and disarmed: "Armed held \<noteq> FLIGHTSTATUS_ARMED_ARMED"
    and motor: "types_mixer st ct = MIXERSETTINGS_MIXER1TYPE_MOTOR"
    and ct: "ct < MAX_MIX_ACTUATORS"
    and fin: "fin = final_state (post_process_scale_and_commit powapprox (ni_state nz) motor_vect dT
                (ni_armed nz) (ni_spin_while_armed nz) (ni_stabilize_now nz))"
  shows "flightStatus (ni_state nz) = held
       \<and> \<not> ni_armed nz
       \<and> (\<not> ActuatorCommandReadOnly st \<longrightarrow>
            Channel (ActuatorCommand fin) ct = ChannelMin (actuatorSettings st) ct
            \<and> servo fin ct = ChannelMin (actuatorSettings st) ct)
       \<and> (ActuatorCommandReadOnly st
            \<and> (\<forall>n<MAX_MIX_ACTUATORS. types_mixer st n \<noteq> MIXERSETTINGS_MIXER1TYPE_INVALID) \<longrightarrow>
            ActuatorCommand fin = ActuatorCommand st
            \<and> servo fin ct = Channel (ActuatorCommand st) ct)"
proof -
  let ?s = "ni_state nz"
  let ?r = "post_process_scale_and_commit powapprox ?s motor_vect dT
              (ni_armed nz) (ni_spin_while_armed nz) (ni_stabilize_now nz)"
  have fs: "flightStatus ?s = held"
    using nz held by (simp add: normalize_frame fetch_flight_status_def)
  have armed: "ni_armed nz = False"
    using fs disarmed nz by (simp add: normalize_frame)
  have ty: "types_mixer ?s ct = MIXERSETTINGS_MIXER1TYPE_MOTOR" using motor nz by (simp add: normalize_frame)
  have set': "actuatorSettings ?s = actuatorSettings st" using nz by (simp add: normalize_frame)
  have a: "Channel (ActuatorCommand fin) ct = ChannelMin (actuatorSettings st) ct
            \<and> servo fin ct = ChannelMin (actuatorSettings st) ct"
    if rw: "\<not> ActuatorCommandReadOnly st"
  proof -
    have rw': "\<not> ActuatorCommandReadOnly ?s" using rw nz by (simp add: normalize_frame)
    show ?thesis
    proof (cases ?r)
      case (Inl fault)
      then have "fault = AssertFailed (set_failsafe ?s)" by (rule post_process_Inl)
      with Inl fin have "fin = set_failsafe ?s" by simp
      with ty ct set' show ?thesis by (simp add: set_failsafe_fields)
    next
      case (Inr p)
      obtain mv2 st2 where p: "p = (mv2, st2)" by (cases p)
      with Inr fin have f: "fin = st2" by simp
      from Inr p have r: "?r = Inr (mv2, st2)" by simp
      from post_process_Inr [OF r ct] armed ty rw' have
        "mv2 ct = - 1"
        "Channel (ActuatorCommand st2) ct = scale_channel ?s (mv2 ct) ct"
        "servo st2 ct = scale_channel ?s (mv2 ct) ct"
        by (auto simp: motor_protect_disarmed)
      with f set' show ?thesis by (simp add: scale_channel_min)
    qed
  qed
  have b: "ActuatorCommand fin = ActuatorCommand st
            \<and> servo fin ct = Channel (ActuatorCommand st) ct"
    if ro: "ActuatorCommandReadOnly st"
      and valid: "\<forall>n<MAX_MIX_ACTUATORS. types_mixer st n \<noteq> MIXERSETTINGS_MIXER1TYPE_INVALID"
  proof -
    have ro': "ActuatorCommandReadOnly ?s" using ro nz by (simp add: normalize_frame)
    have valid': "\<forall>n<MAX_MIX_ACTUATORS. types_mixer ?s n \<noteq> MIXERSETTINGS_MIXER1TYPE_INVALID"
      using valid nz by (simp add: normalize_frame)
    have ac: "ActuatorCommand ?s = ActuatorCommand st" using nz by (simp add: normalize_frame)
    from post_process_final [OF valid' ct fin] ro' ac show ?thesis by auto
  qed
  from fs armed a b show ?thesis by blast
qed

theorem disarmed_motor_channel_min_witness:
  "(let nz = normalize_input_data (\<lambda>x c k lo hi. x) quad_state 0 (\<lambda>i. 0);
        fin = final_state (post_process_scale_and_commit (\<lambda>v e. v) (ni_state nz) (\<lambda>n. 1 / 2) 0
                (ni_armed nz) (ni_spin_while_armed nz) (ni_stabilize_now nz));
        ro = quad_state\<lparr>ActuatorCommandReadOnly := True\<rparr>;
        nz' = normalize_input_data (\<lambda>x c k lo hi. x) ro 0 (\<lambda>i. 0);
        fin' = final_state (post_process_scale_and_commit (\<lambda>v e. v) (ni_state nz') (\<lambda>n. 1 / 2) 0
                (ni_armed nz') (ni_spin_while_armed nz') (ni_stabilize_now nz'))
    in Armed (flightStatus (ni_state nz)) = FLIGHTSTATUS_ARMED_DISARMED
       \<and> \<not> ni_armed nz
       \<and> Channel (ActuatorCommand fin) 0 = 1000 \<and> servo fin 0 = 1000
       \<and> \<not> ni_armed nz'
       \<and> ActuatorCommand fin' = ActuatorCommand ro \<and> servo fin' 0 = 1500)"
proof -
  define ro where "ro = quad_state\<lparr>ActuatorCommandReadOnly := True\<rparr>"
  define held where "held = \<lparr>Armed = FLIGHTSTATUS_ARMED_DISARMED, FlightMode = FLIGHTSTATUS_FLIGHTMODE_OTHER\<rparr>"
  define nz where "nz = normalize_input_data (\<lambda>x c k lo hi. x) quad_state 0 (\<lambda>i. 0)"
  define fin where "fin = final_state (post_process_scale_and_commit (\<lambda>v e. v) (ni_state nz)
      (\<lambda>n. 1 / 2) 0 (ni_armed nz) (ni_spin_while_armed nz) (ni_stabilize_now nz))"
  define nz' where "nz' = normalize_input_data (\<lambda>x c k lo hi. x) ro 0 (\<lambda>i. 0)"
  define fin' where "fin' = final_state (post_process_scale_and_commit (\<lambda>v e. v) (ni_state nz')
      (\<lambda>n. 1 / 2) 0 (ni_armed nz') (ni_spin_while_armed nz') (ni_stabilize_now nz'))"
  have h0: "held = (if flight_status_updated quad_state then FlightStatus quad_state
                    else flightStatus quad_state)"
    "held = (if flight_status_updated ro then FlightStatus ro else flightStatus ro)"
    by (simp_all add: held_def ro_def quad_state_def)
  have h1: "Armed held \<noteq> FLIGHTSTATUS_ARMED_ARMED" and h1': "Armed held = FLIGHTSTATUS_ARMED_DISARMED"
    by (simp_all add: held_def)
  have h2: "\<not> ActuatorCommandReadOnly quad_state" "ActuatorCommandReadOnly ro"
    by (simp_all add: ro_def quad_state_def)
  have h3: "types_mixer quad_state 0 = MIXERSETTINGS_MIXER1TYPE_MOTOR"
    "types_mixer ro 0 = MIXERSETTINGS_MIXER1TYPE_MOTOR"
    by (simp_all add: ro_def quad_state_def quad_types_def)
  have h4: "0 < MAX_MIX_ACTUATORS" by (simp add: MAX_MIX_ACTUATORS_def)
  have h5: "ChannelMin (actuatorSettings quad_state) 0 = 1000"
    by (simp add: quad_state_def quad_settings_def)
  have h6: "\<forall>n<MAX_MIX_ACTUATORS. types_mixer ro n \<noteq> MIXERSETTINGS_MIXER1TYPE_INVALID"
    using quad_valid by (simp add: ro_def)
  have h7: "Channel (ActuatorCommand ro) 0 = 1500" by (simp add: ro_def quad_state_def)
  note T = disarmed_motor_channel_min [OF nz_def h0(1) h1 h3(1) h4 fin_def]
  note T' = disarmed_motor_channel_min [OF nz'_def h0(2) h1 h3(2) h4 fin'_def]
  from T h1' have a: "Armed (flightStatus (ni_state nz)) = FLIGHTSTATUS_ARMED_DISARMED"
    "\<not> ni_armed nz" by simp_all
  from T h2(1) h5 have b: "Channel (ActuatorCommand fin) 0 = 1000" "servo fin 0 = 1000"
    by simp_all
  from T' have c: "\<not> ni_armed nz'" by simp
  from T' h2(2) h6 h7 have d: "ActuatorCommand fin' = ActuatorCommand ro" "servo fin' 0 = 1500"
    by simp_all
  from a b c d show ?thesis
    unfolding Let_def ro_def [symmetric] nz_def [symmetric] fin_def [symmetric]
      nz'_def [symmetric] fin'_def [symmetric]
    by simp
qed

text \<open>
  The claim as stated fails with a read-only ActuatorCommand: the FlightStatus object
  is not Armed and is fetched in the tick, the object is read back, and its channels,
  here 1500, stay published and go to the servo driver, where the ChannelMin of the
  motor is 1000.
\<close>

theorem disarmed_motor_read_only_counterexample:
  "(let st = quad_state\<lparr>ActuatorCommandReadOnly := True\<rparr>;
        nz = normalize_input_data (\<lambda>x c k lo hi. x) st 0 (\<lambda>i. 0);
        fin = final_state (post_process_scale_and_commit (\<lambda>v e. v) (ni_state nz) (\<lambda>n. 1 / 2) 0
                (ni_armed nz) (ni_spin_while_armed nz) (ni_stabilize_now nz))
    in Armed (FlightStatus st) = FLIGHTSTATUS_ARMED_DISARMED
       \<and> flight_status_updated st
       \<and> Armed (flightStatus st) = FLIGHTSTATUS_ARMED_DISARMED
       \<and> types_mixer st 0 = MIXERSETTINGS_MIXER1TYPE_MOTOR
       \<and> ChannelMin (actuatorSettings st) 0 = 1000
       \<and> Channel (ActuatorCommand fin) 0 = 1500
       \<and> servo fin 0 = 1500)"
proof -
  define st where "st = quad_state\<lparr>ActuatorCommandReadOnly := True\<rparr>"
  define nz where "nz = normalize_input_data (\<lambda>x c k lo hi. x) st 0 (\<lambda>i. 0)"
  define fin where "fin = final_state (post_process_scale_and_commit (\<lambda>v e. v) (ni_state nz)
      (\<lambda>n. 1 / 2) 0 (ni_armed nz) (ni_spin_while_armed nz) (ni_stabilize_now nz))"
  have valid: "\<forall>ct<MAX_MIX_ACTUATORS. types_mixer (ni_state nz) ct \<noteq> MIXERSETTINGS_MIXER1TYPE_INVALID"
    using quad_valid by (simp add: nz_def normalize_frame st_def)
  have n: "0 < MAX_MIX_ACTUATORS" by (simp add: MAX_MIX_ACTUATORS_def)
  have ro: "ActuatorCommandReadOnly (ni_state nz)"
    by (simp add: nz_def normalize_frame st_def)
  from post_process_final [OF valid n fin_def] ro
  have "servo fin 0 = Channel (ActuatorCommand (ni_state nz)) 0"
    "ActuatorCommand fin = ActuatorCommand (ni_state nz)" by simp_all
  then have "servo fin 0 = 1500" "Channel (ActuatorCommand fin) 0 = 1500"
    by (simp_all add: nz_def normalize_frame st_def quad_state_def)
  moreover have "Armed (FlightStatus st) = FLIGHTSTATUS_ARMED_DISARMED"
    "flight_status_updated st"
    "Armed (flightStatus st) = FLIGHTSTATUS_ARMED_DISARMED"
    "types_mixer st 0 = MIXERSETTINGS_MIXER1TYPE_MOTOR"
    "ChannelMin (actuatorSettings st) 0 = 1000"
    by (simp_all add: st_def quad_state_def quad_types_def quad_settings_def)
  ultimately show ?thesis
    unfolding Let_def st_def [symmetric] nz_def [symmetric] fin_def [symmetric] by simp
qed

text \<open>
  The claim as stated also fails where the copy that the task holds differs from the
  object: with the update flag not set (it is cleared after the fetch, and a change
  of the object between the two is lost) the tick works with the copy. Here the
  object is not Armed, the copy is Armed, and the motor on channel 0 is driven at
  2000 for the mixer output 1, where its ChannelMin is 1000.
\<close>

lemma disarmed_object_armed_copy:
  "(let st = quad_state\<lparr>flight_status_updated := False,
               flightStatus := \<lparr>Armed = FLIGHTSTATUS_ARMED_ARMED,
                                FlightMode = FLIGHTSTATUS_FLIGHTMODE_OTHER\<rparr>\<rparr>;
        nz = normalize_input_data (\<lambda>x c k lo hi. x) st 0 (\<lambda>i. 0);
        fin = final_state (post_process_scale_and_commit (\<lambda>v e. v) (ni_state nz) (\<lambda>n. 1) 0
                (ni_armed nz) (ni_spin_while_armed nz) (ni_stabilize_now nz))
    in Armed (FlightStatus st) = FLIGHTSTATUS_ARMED_DISARMED
       \<and> \<not> ActuatorCommandReadOnly st
       \<and> types_mixer st 0 = MIXERSETTINGS_MIXER1TYPE_MOTOR
       \<and> ChannelMin (actuatorSettings st) 0 = 1000
       \<and> ni_armed nz
       \<and> Channel (ActuatorCommand fin) 0 = 2000
       \<and> servo fin 0 = 2000)"
proof -
  define st where "st = quad_state\<lparr>flight_status_updated := False,
               flightStatus := \<lparr>Armed = FLIGHTSTATUS_ARMED_ARMED,
                                FlightMode = FLIGHTSTATUS_FLIGHTMODE_OTHER\<rparr>\<rparr>"
  define nz where "nz = normalize_input_data (\<lambda>x c k lo hi. x) st 0 (\<lambda>i. 0)"
  define cs where "cs = \<lparr>min_chan = Some (1::real), max_chan = Some (1::real), neg_clip = 0,
                         num_motors = 4\<rparr>"
  let ?s = "ni_state nz"
  let ?r = "post_process_scale_and_commit (\<lambda>v e. v) ?s (\<lambda>n. 1) 0
              (ni_armed nz) (ni_spin_while_armed nz) (ni_stabilize_now nz)"
  have flags: "ni_armed nz" "ni_stabilize_now nz"
    by (simp_all add: nz_def st_def normalize_input_data_def Let_def split_def hangtime_def
          throttle_source_def fetch_flight_status_def fetch_manual_control_def quad_state_def)
  have ty: "types_mixer ?s = quad_types" and se: "actuatorSettings ?s = quad_settings"
    and rw: "\<not> ActuatorCommandReadOnly ?s"
    by (simp_all add: nz_def normalize_frame st_def quad_state_def)
  have sc: "map_sum id snd (scan_channels ?s [0..<MAX_MIX_ACTUATORS] (\<lambda>n. 1, clip_stats_init)) = Inr cs"
    by (simp add: MAX_MIX_ACTUATORS_def upt10 ty quad_types_def clip_stats_init_def
          fminf_chan_def fmaxf_chan_def cs_def)
  then obtain mv1 where
    sc': "scan_channels ?s [0..<MAX_MIX_ACTUATORS] (\<lambda>n. 1, clip_stats_init) = Inr (mv1, cs)"
    by (cases "scan_channels ?s [0..<MAX_MIX_ACTUATORS] (\<lambda>n. 1, clip_stats_init)") auto
  have n: "0 < MAX_MIX_ACTUATORS" by (simp add: MAX_MIX_ACTUATORS_def)
  have m1: "mv1 0 = 1"
    using scan_channels_Inr [OF sc', of 0]
    by (simp add: MAX_MIX_ACTUATORS_def scanned_value_def ty quad_types_def)
  have go: "clip_gain_offset ?s cs = (1, 0)" by (simp add: clip_gain_offset_def cs_def Let_def)
  from post_process_motor_vect [OF sc' n, of "\<lambda>v e. v" 0 "ni_armed nz" "ni_spin_while_armed nz"
      "ni_stabilize_now nz"]
  obtain mv2 st2 where r: "?r = Inr (mv2, st2)"
    and mv2: "mv2 0 = motor_protect (\<lambda>v e. v) ?s (ni_armed nz) (ni_spin_while_armed nz)
                 (ni_stabilize_now nz) 1 0 0 1"
    by (auto simp: go m1)
  from mv2 flags have v: "mv2 0 = 1" by (simp add: motor_protect_def ty quad_types_def)
  from post_process_Inr [OF r n] rw v have
    "Channel (ActuatorCommand st2) 0 = scale_channel ?s 1 0" "servo st2 0 = scale_channel ?s 1 0"
    by auto
  moreover have "scale_channel ?s 1 0 = 2000"
    by (simp add: scale_channel_def Let_def se quad_settings_def)
  moreover from r have "final_state ?r = st2" by simp
  moreover have "Armed (FlightStatus st) = FLIGHTSTATUS_ARMED_DISARMED"
    "\<not> ActuatorCommandReadOnly st"
    "types_mixer st 0 = MIXERSETTINGS_MIXER1TYPE_MOTOR"
    "ChannelMin (actuatorSettings st) 0 = 1000"
    by (simp_all add: st_def quad_state_def quad_types_def quad_settings_def)
  ultimately show ?thesis
    unfolding Let_def st_def [symmetric] nz_def [symmetric] using flags by simp
qed

subsection \<open>The range of the published pulse widths\<close>

text \<open>
  On a normal tick (every row has a known type, ActuatorCommand is not read-only) each
  published channel lies between the smaller and the larger of ChannelMin and
  ChannelMax, inverted ranges included: every value goes through \<^verbatim>\<open>scale_channel\<close>,
  which clamps it. A failsafe publishes a Motor channel at its ChannelMin, which lies
  in the interval.
\<close>

lemma normal_tick_pulse_in_range:
  assumes valid: "\<forall>ct<MAX_MIX_ACTUATORS. types_mixer st ct \<noteq> MIXERSETTINGS_MIXER1TYPE_INVALID"
    and rw: "\<not> ActuatorCommandReadOnly st"
    and n: "n < MAX_MIX_ACTUATORS"
    and fin: "fin = final_state (post_process_scale_and_commit powapprox st motor_vect dT
                armed spin_while_armed stabilize_now)"
  shows "min (ChannelMin (actuatorSettings st) n) (ChannelMax (actuatorSettings st) n)
           \<le> Channel (ActuatorCommand fin) n
       \<and> Channel (ActuatorCommand fin) n
           \<le> max (ChannelMin (actuatorSettings st) n) (ChannelMax (actuatorSettings st) n)
       \<and> (types_mixer st n = MIXERSETTINGS_MIXER1TYPE_MOTOR \<longrightarrow>
            Channel (ActuatorCommand (set_failsafe st)) n = ChannelMin (actuatorSettings st) n)"
proof -
  from post_process_final [OF valid n fin] rw obtain v where
    "Channel (ActuatorCommand fin) n = scale_channel st v n" by auto
  with scale_channel_range [of st n v] n show ?thesis
    by (simp add: set_failsafe_fields)
qed

lemma normal_tick_pulse_in_range_witness:
  "1000 \<le> Channel (ActuatorCommand (final_state (post_process_scale_and_commit (\<lambda>v e. v)
              quad_state (\<lambda>n. 1 / 2) 0 True False True))) 0
   \<and> Channel (ActuatorCommand (final_state (post_process_scale_and_commit (\<lambda>v e. v)
              quad_state (\<lambda>n. 1 / 2) 0 True False True))) 0 \<le> 2000
   \<and> Channel (ActuatorCommand (set_failsafe quad_state)) 0 = 1000"
proof -
  have h2: "\<not> ActuatorCommandReadOnly quad_state" by (simp add: quad_state_def)
  have h3: "0 < MAX_MIX_ACTUATORS" by (simp add: MAX_MIX_ACTUATORS_def)
  have h4: "types_mixer quad_state 0 = MIXERSETTINGS_MIXER1TYPE_MOTOR"
    by (simp add: quad_state_def quad_types_def)
  have h5: "ChannelMin (actuatorSettings quad_state) 0 = 1000"
           "ChannelMax (actuatorSettings quad_state) 0 = 2000"
    by (simp_all add: quad_state_def quad_settings_def)
  from normal_tick_pulse_in_range [OF quad_valid h2 h3 refl, of "\<lambda>v e. v" "\<lambda>n. 1 / 2" 0 True False True]
    h4 h5 show ?thesis by simp
qed

text \<open>
  Claim C2. Every published pulse width should lie between the smaller and the larger
  of ChannelMin and ChannelMax, on a failsafe publication as on a normal tick. The
  failsafe publishes the value of \<^verbatim>\<open>channel_failsafe_value\<close> as it is (lines 896-916):
  with the range from 1000 to 2000 the disabled channel 7 is published at -1 and the
  camera channel 5 at 0, both below the range, where the scaling of the normal tick
  gives 1000 for the -1 and 1500 for the 0, both in the range.
\<close>

theorem failsafe_pulse_out_of_range:
  "types_mixer quad_state 7 = MIXERSETTINGS_MIXER1TYPE_DISABLED
   \<and> types_mixer quad_state 5 = MIXERSETTINGS_MIXER1TYPE_CAMERAYAW
   \<and> min (ChannelMin (actuatorSettings quad_state) 7) (ChannelMax (actuatorSettings quad_state) 7) = 1000
   \<and> min (ChannelMin (actuatorSettings quad_state) 5) (ChannelMax (actuatorSettings quad_state) 5) = 1000
   \<and> Channel (ActuatorCommand (set_failsafe quad_state)) 7 = - 1
   \<and> Channel (ActuatorCommand (set_failsafe quad_state)) 5 = 0
   \<and> \<not> (min (ChannelMin (actuatorSettings quad_state) 7) (ChannelMax (actuatorSettings quad_state) 7)
          \<le> Channel (ActuatorCommand (set_failsafe quad_state)) 7)
   \<and> \<not> (min (ChannelMin (actuatorSettings quad_state) 5) (ChannelMax (actuatorSettings quad_state) 5)
          \<le> Channel (ActuatorCommand (set_failsafe quad_state)) 5)
   \<and> scale_channel quad_state (- 1) 7 = 1000
   \<and> scale_channel quad_state 0 5 = 1500"
proof -
  have n: "7 < MAX_MIX_ACTUATORS" "5 < MAX_MIX_ACTUATORS" by (simp_all add: MAX_MIX_ACTUATORS_def)
  have ty: "types_mixer quad_state 7 = MIXERSETTINGS_MIXER1TYPE_DISABLED"
    "types_mixer quad_state 5 = MIXERSETTINGS_MIXER1TYPE_CAMERAYAW"
    by (simp_all add: quad_state_def quad_types_def)
  have lim: "ChannelMin (actuatorSettings quad_state) = (\<lambda>n. 1000)"
    "ChannelMax (actuatorSettings quad_state) = (\<lambda>n. 2000)"
    "ChannelNeutral (actuatorSettings quad_state) = (\<lambda>n. 1500)"
    by (simp_all add: quad_state_def quad_settings_def)
  have fs: "Channel (ActuatorCommand (set_failsafe quad_state)) 7 = - 1"
    "Channel (ActuatorCommand (set_failsafe quad_state)) 5 = 0"
    using n ty by (simp_all add: set_failsafe_fields)
  have sc: "scale_channel quad_state (- 1) 7 = 1000" "scale_channel quad_state 0 5 = 1500"
    by (simp_all add: scale_channel_def Let_def lim)
  from ty lim fs sc show ?thesis by simp
qed

subsection \<open>The failsafe\<close>

text \<open>
  What \<^verbatim>\<open>set_failsafe\<close> does: it sets the ACTUATOR alarm to Critical and, for each
  channel, publishes in ActuatorCommand and gives to the servo driver the value that
  \<^verbatim>\<open>channel_failsafe_value\<close> returns for the type of the row, and updates the servo
  driver once.
\<close>

lemma set_failsafe_outputs:
  assumes n: "n < MAX_MIX_ACTUATORS"
    and v: "v = (case types_mixer st n of
                   MIXERSETTINGS_MIXER1TYPE_MOTOR \<Rightarrow> ChannelMin (actuatorSettings st) n
                 | MIXERSETTINGS_MIXER1TYPE_SERVO \<Rightarrow> ChannelNeutral (actuatorSettings st) n
                 | MIXERSETTINGS_MIXER1TYPE_DISABLED \<Rightarrow> - 1
                 | _ \<Rightarrow> 0)"
  shows "actuator_alarm (set_failsafe st) = SYSTEMALARMS_ALARM_CRITICAL
       \<and> Channel (ActuatorCommand (set_failsafe st)) n = v
       \<and> servo (set_failsafe st) n = v
       \<and> servo_updates (set_failsafe st) = Suc (servo_updates st)"
  using n v by (simp add: set_failsafe_fields)

lemma set_failsafe_outputs_witness:
  "actuator_alarm (set_failsafe quad_state) = SYSTEMALARMS_ALARM_CRITICAL
   \<and> Channel (ActuatorCommand (set_failsafe quad_state)) 7 = - 1
   \<and> servo (set_failsafe quad_state) 7 = - 1
   \<and> servo_updates (set_failsafe quad_state) = Suc 0"
proof -
  have h1: "7 < MAX_MIX_ACTUATORS" by (simp add: MAX_MIX_ACTUATORS_def)
  have h2: "(- 1 :: real) = (case types_mixer quad_state 7 of
                   MIXERSETTINGS_MIXER1TYPE_MOTOR \<Rightarrow> ChannelMin (actuatorSettings quad_state) 7
                 | MIXERSETTINGS_MIXER1TYPE_SERVO \<Rightarrow> ChannelNeutral (actuatorSettings quad_state) 7
                 | MIXERSETTINGS_MIXER1TYPE_DISABLED \<Rightarrow> - 1
                 | _ \<Rightarrow> 0)"
    by (simp add: quad_state_def quad_types_def)
  have h3: "servo_updates quad_state = 0" by (simp add: quad_state_def)
  from set_failsafe_outputs [OF h1 h2] h3 show ?thesis by simp
qed

text \<open>
  Claim C4. In the failsafe a Motor channel should be at its ChannelMin, a Servo at its
  ChannelNeutral, a Disabled channel at the -1 scaled through the range of the
  channel, and a channel of another type centred; the alarm is Critical and the
  values are published and given to the servo driver. The source does so for the
  motors, the servos and the alarm. The -1 and the 0 it publishes and gives to the
  servo driver as pulse widths, with no scaling (lines 905-911): with the range from
  1000 over 1500 to 2000 the disabled channel 7 goes out at -1, where the scaled
  value is 1000, and the camera channel 5 at 0, where the centre is 1500.
\<close>

theorem failsafe_values_not_scaled:
  "actuator_alarm (set_failsafe quad_state) = SYSTEMALARMS_ALARM_CRITICAL
   \<and> types_mixer quad_state 0 = MIXERSETTINGS_MIXER1TYPE_MOTOR
   \<and> servo (set_failsafe quad_state) 0 = 1000
   \<and> types_mixer quad_state 4 = MIXERSETTINGS_MIXER1TYPE_SERVO
   \<and> servo (set_failsafe quad_state) 4 = 1500
   \<and> types_mixer quad_state 7 = MIXERSETTINGS_MIXER1TYPE_DISABLED
   \<and> scale_channel quad_state (- 1) 7 = 1000
   \<and> servo (set_failsafe quad_state) 7 = - 1
   \<and> Channel (ActuatorCommand (set_failsafe quad_state)) 7 = - 1
   \<and> types_mixer quad_state 5 = MIXERSETTINGS_MIXER1TYPE_CAMERAYAW
   \<and> scale_channel quad_state 0 5 = 1500
   \<and> servo (set_failsafe quad_state) 5 = 0
   \<and> Channel (ActuatorCommand (set_failsafe quad_state)) 5 = 0"
proof -
  have n: "0 < MAX_MIX_ACTUATORS" "4 < MAX_MIX_ACTUATORS" "5 < MAX_MIX_ACTUATORS"
    "7 < MAX_MIX_ACTUATORS" by (simp_all add: MAX_MIX_ACTUATORS_def)
  have ty: "types_mixer quad_state 0 = MIXERSETTINGS_MIXER1TYPE_MOTOR"
    "types_mixer quad_state 4 = MIXERSETTINGS_MIXER1TYPE_SERVO"
    "types_mixer quad_state 7 = MIXERSETTINGS_MIXER1TYPE_DISABLED"
    "types_mixer quad_state 5 = MIXERSETTINGS_MIXER1TYPE_CAMERAYAW"
    by (simp_all add: quad_state_def quad_types_def)
  have lim: "ChannelMin (actuatorSettings quad_state) = (\<lambda>n. 1000)"
    "ChannelMax (actuatorSettings quad_state) = (\<lambda>n. 2000)"
    "ChannelNeutral (actuatorSettings quad_state) = (\<lambda>n. 1500)"
    by (simp_all add: quad_state_def quad_settings_def)
  have fs: "servo (set_failsafe quad_state) 0 = 1000"
    "servo (set_failsafe quad_state) 4 = 1500"
    "servo (set_failsafe quad_state) 7 = - 1"
    "Channel (ActuatorCommand (set_failsafe quad_state)) 7 = - 1"
    "servo (set_failsafe quad_state) 5 = 0"
    "Channel (ActuatorCommand (set_failsafe quad_state)) 5 = 0"
    using n ty by (simp_all add: set_failsafe_fields lim)
  have sc: "scale_channel quad_state (- 1) 7 = 1000" "scale_channel quad_state 0 5 = 1500"
    by (simp_all add: scale_channel_def Let_def lim)
  from ty fs sc show ?thesis by (simp add: set_failsafe_fields)
qed

subsection \<open>Camera channels\<close>

text \<open>
  Claim C6. A channel of type CameraYaw should take the Yaw of CameraDesired. The source
  reads the Roll for it (line 477): with Roll 1/4 and Yaw 3/4 the channel is published
  at 1625, the pulse width of 1/4, where the Yaw would give 1875.
\<close>

theorem camera_yaw_takes_roll:
  "types_mixer quad_state 5 = MIXERSETTINGS_MIXER1TYPE_CAMERAYAW
   \<and> CameraDesired quad_state
       = Some \<lparr>CameraDesiredRoll = 1 / 4, CameraDesiredPitch = 0, CameraDesiredYaw = 3 / 4\<rparr>
   \<and> Channel (ActuatorCommand (final_state (post_process_scale_and_commit (\<lambda>v e. v)
         quad_state (\<lambda>n. 1 / 2) 0 True False True))) 5 = scale_channel quad_state (1 / 4) 5
   \<and> scale_channel quad_state (1 / 4) 5 = 1625
   \<and> scale_channel quad_state (3 / 4) 5 = 1875"
proof -
  have n: "5 < MAX_MIX_ACTUATORS" by (simp add: MAX_MIX_ACTUATORS_def)
  have ty: "types_mixer quad_state 5 = MIXERSETTINGS_MIXER1TYPE_CAMERAYAW"
    by (simp add: quad_state_def quad_types_def)
  have rw: "\<not> ActuatorCommandReadOnly quad_state" by (simp add: quad_state_def)
  have cam: "CameraDesired quad_state
       = Some \<lparr>CameraDesiredRoll = 1 / 4, CameraDesiredPitch = 0, CameraDesiredYaw = 3 / 4\<rparr>"
    by (simp add: quad_state_def)
  have sv: "scanned_value quad_state (\<lambda>n. 1 / 2) 5 = 1 / 4"
    by (simp add: scanned_value_def ty camera_value_def cam)
  from post_process_final [OF quad_valid n refl, of "\<lambda>v e. v" "\<lambda>n. 1 / 2" 0 True False True] rw
  have "Channel (ActuatorCommand (final_state (post_process_scale_and_commit (\<lambda>v e. v)
         quad_state (\<lambda>n. 1 / 2) 0 True False True))) 5 = scale_channel quad_state (1 / 4) 5"
    by (auto simp: motor_protect_other ty sv)
  moreover have "scale_channel quad_state (1 / 4) 5 = 1625" "scale_channel quad_state (3 / 4) 5 = 1875"
    by (simp_all add: scale_channel_def quad_state_def quad_settings_def)
  ultimately show ?thesis using ty cam by simp
qed

subsection \<open>Channels that are not motors\<close>

lemma actuator_tick_final:
  assumes nz: "nz = normalize_input_data li st t dv"
    and finite: "\<forall>n<MAX_MIX_ACTUATORS. mix_desired (ni_state nz) (ni_desired_vect nz) n \<noteq> None"
    and mv: "mv = (\<lambda>i. case mix_desired (ni_state nz) (ni_desired_vect nz) i of
                          Some x \<Rightarrow> x | None \<Rightarrow> 0)"
    and valid: "\<forall>ct<MAX_MIX_ACTUATORS. types_mixer st ct \<noteq> MIXERSETTINGS_MIXER1TYPE_INVALID"
  shows "actuator_tick li pw st t dv dT =
           Some (Inr (ni_desired_vect nz,
                      (final_state (post_process_scale_and_commit pw (ni_state nz) mv dT
                         (ni_armed nz) (ni_spin_while_armed nz) (ni_stabilize_now nz)))
                        \<lparr>actuator_alarm := SYSTEMALARMS_ALARM_OK\<rparr>))"
proof -
  have fv: "finite_vect (mix_desired (ni_state nz) (ni_desired_vect nz)) MAX_MIX_ACTUATORS = Some mv"
    using finite mv by (simp add: finite_vect_def list_all_iff)
  have valid': "\<forall>ct<MAX_MIX_ACTUATORS. types_mixer (ni_state nz) ct \<noteq> MIXERSETTINGS_MIXER1TYPE_INVALID"
    using valid nz by (simp add: normalize_frame)
  define R where "R = post_process_scale_and_commit pw (ni_state nz) mv dT
          (ni_armed nz) (ni_spin_while_armed nz) (ni_stabilize_now nz)"
  from final_state_Inr [OF valid', of pw mv dT "ni_armed nz" "ni_spin_while_armed nz"
      "ni_stabilize_now nz"]
  obtain mv2 s2 where r: "R = Inr (mv2, s2)" unfolding R_def by blast
  note r' = r [unfolded R_def]
  show ?thesis
    unfolding actuator_tick_def Let_def nz [symmetric] fv
    by (simp add: r')
qed

lemma throttle_servo_mix:
  assumes "motor_mixer s = (\<lambda>k. if k = 32 then Some 1 else Some 0)"
  shows "mix_desired s dv n = Some (if n = 4 then dv 0 else 0)"
proof -
  have e: "(n * 8 = 32) = (n = 4)" "n * 8 + 1 \<noteq> 32" "n * 8 + 2 \<noteq> 32" "n * 8 + 3 \<noteq> 32"
    "n * 8 + 4 \<noteq> 32" "n * 8 + 5 \<noteq> 32" "n * 8 + 6 \<noteq> 32" "n * 8 + 7 \<noteq> 32"
    by presburger+
  show ?thesis
    using e
    by (simp add: mix_desired_def matrix_mul_check_def MIXERSETTINGS_MIXER1VECTOR_NUMELEM_def
          upt8 assms)
qed

lemma throttle_servo_fields:
  "motor_mixer throttle_servo_disarmed = (\<lambda>k. if k = 32 then Some 1 else Some 0)"
  "motor_mixer throttle_servo_armed = (\<lambda>k. if k = 32 then Some 1 else Some 0)"
  "types_mixer throttle_servo_disarmed = quad_types"
  "types_mixer throttle_servo_armed = quad_types"
  "actuatorSettings throttle_servo_disarmed = quad_settings"
  "actuatorSettings throttle_servo_armed = quad_settings"
  "\<not> ActuatorCommandReadOnly throttle_servo_disarmed"
  "\<not> ActuatorCommandReadOnly throttle_servo_armed"
  by (simp_all add: throttle_servo_armed_def throttle_servo_disarmed_def quad_state_def
        MIXERSETTINGS_MIXER1VECTOR_NUMELEM_def MIXERSETTINGS_MIXER1VECTOR_THROTTLECURVE1_def)

lemma throttle_servo_input:
  "ni_desired_vect (normalize_input_data (\<lambda>x c k lo hi. x) throttle_servo_armed 5400 (\<lambda>i. 0)) 0
     = 1 / 2"
  "ni_desired_vect (normalize_input_data (\<lambda>x c k lo hi. x) throttle_servo_disarmed 5400 (\<lambda>i. 0)) 0
     = 0"
  "ni_armed (normalize_input_data (\<lambda>x c k lo hi. x) throttle_servo_armed 5400 (\<lambda>i. 0))"
  "\<not> ni_armed (normalize_input_data (\<lambda>x c k lo hi. x) throttle_servo_disarmed 5400 (\<lambda>i. 0))"
  "ni_throttle_val (normalize_input_data (\<lambda>x c k lo hi. x) throttle_servo_disarmed 5400 (\<lambda>i. 0))
     = 0"
  by (simp_all add: normalize_input_data_def Let_def split_def hangtime_def
        throttle_source_def fetch_flight_status_def fetch_manual_control_def fetch_accessories_def
        throttle_servo_armed_def throttle_servo_disarmed_def quad_state_def quad_settings_def
        throt_curve_def collective_curve_def fill_desired_vector_def fill_apply
        MIXERSETTINGS_MIXER1VECTOR_THROTTLECURVE1_def MIXERSETTINGS_MIXER1VECTOR_THROTTLECURVE2_def
        MIXERSETTINGS_MIXER1VECTOR_ROLL_def MIXERSETTINGS_MIXER1VECTOR_PITCH_def
        MIXERSETTINGS_MIXER1VECTOR_YAW_def MIXERSETTINGS_MIXER1VECTOR_ACCESSORY0_def
        MANUALCONTROLCOMMAND_ACCESSORY_NUMELEM_def)

lemma throttle_servo_tick:
  assumes st: "st = throttle_servo_armed \<or> st = throttle_servo_disarmed"
    and nz: "nz = normalize_input_data (\<lambda>x c k lo hi. x) st 5400 (\<lambda>i. 0)"
  shows "map_option (map_sum id (\<lambda>(dv, s). (dv 0, Channel (ActuatorCommand s) 4, servo s 4)))
           (actuator_tick (\<lambda>x c k lo hi. x) (\<lambda>v e. v) st 5400 (\<lambda>i. 0) 0)
         = Some (Inr (ni_desired_vect nz 0,
                      scale_channel st (ni_desired_vect nz 0) 4,
                      scale_channel st (ni_desired_vect nz 0) 4))"
proof -
  let ?s = "ni_state nz"
  define mv where "mv = (\<lambda>i. case mix_desired ?s (ni_desired_vect nz) i of
                          Some x \<Rightarrow> x | None \<Rightarrow> 0)"
  have mm: "motor_mixer ?s = (\<lambda>k. if k = 32 then Some 1 else Some 0)"
    using st nz by (auto simp: normalize_mixer throttle_servo_fields)
  have ty: "types_mixer st = quad_types" and rw: "\<not> ActuatorCommandReadOnly st"
    using st by (auto simp: throttle_servo_fields)
  have valid: "\<forall>ct<MAX_MIX_ACTUATORS. types_mixer st ct \<noteq> MIXERSETTINGS_MIXER1TYPE_INVALID"
    by (simp add: ty quad_types_def)
  have finite: "\<forall>n<MAX_MIX_ACTUATORS. mix_desired ?s (ni_desired_vect nz) n \<noteq> None"
    by (simp add: throttle_servo_mix [OF mm])
  have mv4: "mv 4 = ni_desired_vect nz 0" by (simp add: mv_def throttle_servo_mix [OF mm])
  define fin where "fin = final_state (post_process_scale_and_commit (\<lambda>v e. v) ?s mv 0
      (ni_armed nz) (ni_spin_while_armed nz) (ni_stabilize_now nz))"
  have valid': "\<forall>ct<MAX_MIX_ACTUATORS. types_mixer ?s ct \<noteq> MIXERSETTINGS_MIXER1TYPE_INVALID"
    using valid nz by (simp add: normalize_frame)
  have ty': "types_mixer ?s 4 = MIXERSETTINGS_MIXER1TYPE_SERVO"
    and rw': "\<not> ActuatorCommandReadOnly ?s"
    and se: "actuatorSettings ?s = actuatorSettings st"
    using ty rw nz by (simp_all add: normalize_frame quad_types_def)
  have n: "4 < MAX_MIX_ACTUATORS" by (simp add: MAX_MIX_ACTUATORS_def)
  have sv: "scanned_value ?s mv 4 = mv 4" by (simp add: scanned_value_def ty')
  from post_process_final [OF valid' n fin_def] rw' have
    "Channel (ActuatorCommand fin) 4 = scale_channel ?s (mv 4) 4"
    "servo fin 4 = scale_channel ?s (mv 4) 4"
    by (auto simp: motor_protect_other ty' sv)
  then have out: "Channel (ActuatorCommand fin) 4 = scale_channel st (ni_desired_vect nz 0) 4"
    "servo fin 4 = scale_channel st (ni_desired_vect nz 0) 4"
    by (simp_all add: mv4 scale_channel_def se)
  from actuator_tick_final [OF nz finite mv_def valid, of "\<lambda>v e. v" 0] out show ?thesis
    by (simp add: fin_def)
qed

text \<open>
  Claim C10, as amended. For a channel whose type is not Motor, what
  \<^verbatim>\<open>post_process_scale_and_commit\<close> publishes and gives to the servo driver for a
  mixer output \<open>motor_vect\<close> does not depend on the flags \<open>armed\<close>,
  \<open>spin_while_armed\<close> and \<open>stabilize_now\<close> it is called with. On a normal tick
  (every row has a known type, ActuatorCommand is not read-only) it is the scaled
  value \<open>v\<close> of the first loop: the mixer output for a Servo, -1 for a Disabled
  channel, and for a camera channel the field of CameraDesired that the first loop
  reads for it, or -1 without the object; the field is the Roll for a CameraRoll
  channel, the Pitch for a CameraPitch channel, and for a CameraYaw channel the Roll
  again (line 477, the subject of claim C6).
\<close>

theorem non_motor_output_independent_of_arming:
  assumes ty: "types_mixer st ct \<noteq> MIXERSETTINGS_MIXER1TYPE_MOTOR"
    and ct: "ct < MAX_MIX_ACTUATORS"
    and fin: "fin = final_state (post_process_scale_and_commit powapprox st motor_vect dT
                armed spin_while_armed stabilize_now)"
    and fin': "fin' = final_state (post_process_scale_and_commit powapprox st motor_vect dT
                armed' spin_while_armed' stabilize_now')"
    and v: "v = (case types_mixer st ct of
                   MIXERSETTINGS_MIXER1TYPE_SERVO \<Rightarrow> motor_vect ct
                 | MIXERSETTINGS_MIXER1TYPE_DISABLED \<Rightarrow> - 1
                 | MIXERSETTINGS_MIXER1TYPE_CAMERAROLL \<Rightarrow>
                     (case CameraDesired st of Some cam \<Rightarrow> CameraDesiredRoll cam | None \<Rightarrow> - 1)
                 | MIXERSETTINGS_MIXER1TYPE_CAMERAPITCH \<Rightarrow>
                     (case CameraDesired st of Some cam \<Rightarrow> CameraDesiredPitch cam | None \<Rightarrow> - 1)
                 | MIXERSETTINGS_MIXER1TYPE_CAMERAYAW \<Rightarrow>
                     (case CameraDesired st of Some cam \<Rightarrow> CameraDesiredRoll cam | None \<Rightarrow> - 1)
                 | _ \<Rightarrow> motor_vect ct)"
  shows "Channel (ActuatorCommand fin) ct = Channel (ActuatorCommand fin') ct
       \<and> servo fin ct = servo fin' ct
       \<and> ((\<forall>n<MAX_MIX_ACTUATORS. types_mixer st n \<noteq> MIXERSETTINGS_MIXER1TYPE_INVALID)
            \<and> \<not> ActuatorCommandReadOnly st \<longrightarrow>
          Channel (ActuatorCommand fin) ct = scale_channel st v ct
          \<and> servo fin ct = scale_channel st v ct)"
proof -
  let ?r = "post_process_scale_and_commit powapprox st motor_vect dT armed spin_while_armed stabilize_now"
  let ?r' = "post_process_scale_and_commit powapprox st motor_vect dT armed' spin_while_armed' stabilize_now'"
  have same: "Channel (ActuatorCommand fin) ct = Channel (ActuatorCommand fin') ct
              \<and> servo fin ct = servo fin' ct"
  proof (cases ?r)
    case (Inl fault)
    from post_process_fault_final [OF Inl] fin fin' show ?thesis by simp
  next
    case (Inr p)
    show ?thesis
    proof (cases ?r')
      case (Inl fault')
      from post_process_fault_final [OF Inl] fin fin' show ?thesis by simp
    next
      case Inr': (Inr p')
      obtain mv2 st2 where p: "p = (mv2, st2)" by (cases p)
      obtain mv2' st2' where p': "p' = (mv2', st2')" by (cases p')
      from Inr p have r: "?r = Inr (mv2, st2)" by simp
      from Inr' p' have r': "?r' = Inr (mv2', st2')" by simp
      from r r' fin fin' have f: "fin = st2" "fin' = st2'" by simp_all
      from post_process_Inr [OF r ct] post_process_Inr [OF r' ct] ty f show ?thesis
        by (cases "ActuatorCommandReadOnly st") (auto simp: motor_protect_other)
    qed
  qed
  have sv: "scanned_value st motor_vect ct = v"
    unfolding v by (cases "types_mixer st ct") (simp_all add: scanned_value_def camera_value_def)
  have expl: "Channel (ActuatorCommand fin) ct = scale_channel st v ct
          \<and> servo fin ct = scale_channel st v ct"
    if valid: "\<forall>n<MAX_MIX_ACTUATORS. types_mixer st n \<noteq> MIXERSETTINGS_MIXER1TYPE_INVALID"
      and rw: "\<not> ActuatorCommandReadOnly st"
    using post_process_final [OF valid ct fin] rw ty sv by (auto simp: motor_protect_other)
  from same expl show ?thesis by blast
qed

theorem non_motor_output_independent_of_arming_witness:
  "(let out = (\<lambda>a n. Channel (ActuatorCommand (final_state (post_process_scale_and_commit
                   (\<lambda>v e. v) quad_state (\<lambda>n. 1) 0 a a a))) n);
        drv = (\<lambda>a n. servo (final_state (post_process_scale_and_commit
                   (\<lambda>v e. v) quad_state (\<lambda>n. 1) 0 a a a)) n)
    in types_mixer quad_state 4 = MIXERSETTINGS_MIXER1TYPE_SERVO
       \<and> out False 4 = out True 4 \<and> out False 4 = 2000 \<and> drv False 4 = 2000
       \<and> types_mixer quad_state 6 = MIXERSETTINGS_MIXER1TYPE_CAMERAROLL
       \<and> out False 6 = out True 6 \<and> out False 6 = 1625 \<and> drv False 6 = 1625
       \<and> types_mixer quad_state 8 = MIXERSETTINGS_MIXER1TYPE_CAMERAPITCH
       \<and> out False 8 = out True 8 \<and> out False 8 = 1500 \<and> drv False 8 = 1500
       \<and> types_mixer quad_state 5 = MIXERSETTINGS_MIXER1TYPE_CAMERAYAW
       \<and> out False 5 = out True 5 \<and> out False 5 = 1625 \<and> drv False 5 = 1625
       \<and> types_mixer quad_state 7 = MIXERSETTINGS_MIXER1TYPE_DISABLED
       \<and> out False 7 = out True 7 \<and> out False 7 = 1000 \<and> drv False 7 = 1000)"
proof -
  define out where "out = (\<lambda>a n. Channel (ActuatorCommand (final_state
      (post_process_scale_and_commit (\<lambda>v e. v) quad_state (\<lambda>n. 1) 0 a a a))) n)"
  define drv where "drv = (\<lambda>a n. servo (final_state
      (post_process_scale_and_commit (\<lambda>v e. v) quad_state (\<lambda>n. 1) 0 a a a)) n)"
  have ty: "types_mixer quad_state 4 = MIXERSETTINGS_MIXER1TYPE_SERVO"
    "types_mixer quad_state 6 = MIXERSETTINGS_MIXER1TYPE_CAMERAROLL"
    "types_mixer quad_state 8 = MIXERSETTINGS_MIXER1TYPE_CAMERAPITCH"
    "types_mixer quad_state 5 = MIXERSETTINGS_MIXER1TYPE_CAMERAYAW"
    "types_mixer quad_state 7 = MIXERSETTINGS_MIXER1TYPE_DISABLED"
    by (simp_all add: quad_state_def quad_types_def)
  have nm: "types_mixer quad_state 4 \<noteq> MIXERSETTINGS_MIXER1TYPE_MOTOR"
    "types_mixer quad_state 6 \<noteq> MIXERSETTINGS_MIXER1TYPE_MOTOR"
    "types_mixer quad_state 8 \<noteq> MIXERSETTINGS_MIXER1TYPE_MOTOR"
    "types_mixer quad_state 5 \<noteq> MIXERSETTINGS_MIXER1TYPE_MOTOR"
    "types_mixer quad_state 7 \<noteq> MIXERSETTINGS_MIXER1TYPE_MOTOR"
    by (simp_all add: ty)
  have n: "4 < MAX_MIX_ACTUATORS" "6 < MAX_MIX_ACTUATORS" "8 < MAX_MIX_ACTUATORS"
    "5 < MAX_MIX_ACTUATORS" "7 < MAX_MIX_ACTUATORS" by (simp_all add: MAX_MIX_ACTUATORS_def)
  have rw: "\<not> ActuatorCommandReadOnly quad_state" by (simp add: quad_state_def)
  have cam: "CameraDesired quad_state
       = Some \<lparr>CameraDesiredRoll = 1 / 4, CameraDesiredPitch = 0, CameraDesiredYaw = 3 / 4\<rparr>"
    by (simp add: quad_state_def)
  have sc: "scale_channel quad_state 1 4 = 2000" "scale_channel quad_state (1 / 4) 6 = 1625"
    "scale_channel quad_state 0 8 = 1500" "scale_channel quad_state (1 / 4) 5 = 1625"
    "scale_channel quad_state (- 1) 7 = 1000"
    by (simp_all add: scale_channel_def quad_state_def quad_settings_def)
  note T4 = non_motor_output_independent_of_arming [OF nm(1) n(1) refl refl refl,
      of "\<lambda>v e. v" "\<lambda>n. 1" 0 False False False True True True]
  note T6 = non_motor_output_independent_of_arming [OF nm(2) n(2) refl refl refl,
      of "\<lambda>v e. v" "\<lambda>n. 1" 0 False False False True True True]
  note T8 = non_motor_output_independent_of_arming [OF nm(3) n(3) refl refl refl,
      of "\<lambda>v e. v" "\<lambda>n. 1" 0 False False False True True True]
  note T5 = non_motor_output_independent_of_arming [OF nm(4) n(4) refl refl refl,
      of "\<lambda>v e. v" "\<lambda>n. 1" 0 False False False True True True]
  note T7 = non_motor_output_independent_of_arming [OF nm(5) n(5) refl refl refl,
      of "\<lambda>v e. v" "\<lambda>n. 1" 0 False False False True True True]
  from T4 quad_valid rw have c4: "out False 4 = out True 4" "out False 4 = 2000" "drv False 4 = 2000"
    by (simp_all add: out_def drv_def ty cam sc)
  from T6 quad_valid rw have c6: "out False 6 = out True 6" "out False 6 = 1625" "drv False 6 = 1625"
    by (simp_all add: out_def drv_def ty cam sc)
  from T8 quad_valid rw have c8: "out False 8 = out True 8" "out False 8 = 1500" "drv False 8 = 1500"
    by (simp_all add: out_def drv_def ty cam sc)
  from T5 quad_valid rw have c5: "out False 5 = out True 5" "out False 5 = 1625" "drv False 5 = 1625"
    by (simp_all add: out_def drv_def ty cam sc)
  from T7 quad_valid rw have c7: "out False 7 = out True 7" "out False 7 = 1000" "drv False 7 = 1000"
    by (simp_all add: out_def drv_def ty cam sc)
  from ty c4 c6 c8 c5 c7 show ?thesis
    unfolding Let_def out_def [symmetric] drv_def [symmetric] by simp
qed

text \<open>
  The claim as stated fails for the tick as a whole, since the mixer output depends on
  the arming through the throttle. The two states differ in the Armed field of the
  FlightStatus object only; the servo on channel 4 takes the first throttle curve;
  the thrust is 1/2 and the tick comes 400 ms after the last positive throttle, inside
  the hang time of one second. Armed, the throttle 1/2 goes into the curve and the
  servo is committed at 1750. Disarmed, the hang time forces the throttle to 0 and the
  servo is committed at 1500.
\<close>

theorem servo_output_depends_on_arming_counterexample:
  "throttle_servo_armed =
     throttle_servo_disarmed\<lparr>FlightStatus :=
       \<lparr>Armed = FLIGHTSTATUS_ARMED_ARMED, FlightMode = FLIGHTSTATUS_FLIGHTMODE_OTHER\<rparr>\<rparr>
   \<and> Armed (FlightStatus throttle_servo_disarmed) = FLIGHTSTATUS_ARMED_DISARMED
   \<and> types_mixer throttle_servo_armed 4 = MIXERSETTINGS_MIXER1TYPE_SERVO
   \<and> types_mixer throttle_servo_disarmed 4 = MIXERSETTINGS_MIXER1TYPE_SERVO
   \<and> map_option (map_sum id (\<lambda>(dv, s). (dv 0, Channel (ActuatorCommand s) 4, servo s 4)))
       (actuator_tick (\<lambda>x c k lo hi. x) (\<lambda>v e. v) throttle_servo_armed 5400 (\<lambda>i. 0) 0)
     = Some (Inr (1 / 2, 1750, 1750))
   \<and> map_option (map_sum id (\<lambda>(dv, s). (dv 0, Channel (ActuatorCommand s) 4, servo s 4)))
       (actuator_tick (\<lambda>x c k lo hi. x) (\<lambda>v e. v) throttle_servo_disarmed 5400 (\<lambda>i. 0) 0)
     = Some (Inr (0, 1500, 1500))"
proof -
  have a: "throttle_servo_armed =
     throttle_servo_disarmed\<lparr>FlightStatus :=
       \<lparr>Armed = FLIGHTSTATUS_ARMED_ARMED, FlightMode = FLIGHTSTATUS_FLIGHTMODE_OTHER\<rparr>\<rparr>"
    by (simp add: throttle_servo_armed_def)
  have b: "Armed (FlightStatus throttle_servo_disarmed) = FLIGHTSTATUS_ARMED_DISARMED"
    by (simp add: throttle_servo_disarmed_def quad_state_def)
  have ty: "types_mixer throttle_servo_armed 4 = MIXERSETTINGS_MIXER1TYPE_SERVO"
    "types_mixer throttle_servo_disarmed 4 = MIXERSETTINGS_MIXER1TYPE_SERVO"
    by (simp_all add: throttle_servo_fields quad_types_def)
  have sc: "scale_channel throttle_servo_armed (1 / 2) 4 = 1750"
    "scale_channel throttle_servo_disarmed 0 4 = 1500"
    by (simp_all add: scale_channel_def Let_def throttle_servo_fields quad_settings_def)
  have ta: "map_option (map_sum id (\<lambda>(dv, s). (dv 0, Channel (ActuatorCommand s) 4, servo s 4)))
       (actuator_tick (\<lambda>x c k lo hi. x) (\<lambda>v e. v) throttle_servo_armed 5400 (\<lambda>i. 0) 0)
     = Some (Inr (1 / 2, 1750, 1750))"
    using throttle_servo_tick [OF disjI1 [OF refl] refl]
    by (simp only: throttle_servo_input sc)
  have td: "map_option (map_sum id (\<lambda>(dv, s). (dv 0, Channel (ActuatorCommand s) 4, servo s 4)))
       (actuator_tick (\<lambda>x c k lo hi. x) (\<lambda>v e. v) throttle_servo_disarmed 5400 (\<lambda>i. 0) 0)
     = Some (Inr (0, 1500, 1500))"
    using throttle_servo_tick [OF disjI2 [OF refl] refl]
    by (simp only: throttle_servo_input sc)
  from a b ty ta td show ?thesis by blast
qed

subsection \<open>Roll saturation\<close>

text \<open>
  Claim C3, as amended. In the scenario the mixer output of the four motors is
  (3/2, 3/2, -1/2, -1/2), the mixer output of all channels is \<open>s2_motor_vect\<close>, and
  the gain is 1/2, as claimed. The first loop sums the
  negative values before the gain is applied, so \<open>neg_clip\<close> is -1 and its average
  over the four motors -1/4; the offset is min (1/4) (-1/4 + 1/10) = -3/20, and the
  motor values before the curve fit are (3/5, 3/5, 0, 0): \<open>powapprox\<close> is applied to
  3/5 on the first two motors, the other two are clamped to 0.
\<close>

theorem roll_saturation_scenario:
  "ni_armed s2_input \<and> ni_stabilize_now s2_input \<and> \<not> ni_spin_while_armed s2_input
   \<and> map (mix_desired (ni_state s2_input) (ni_desired_vect s2_input)) [0, 1, 2, 3]
       = [Some (3 / 2), Some (3 / 2), Some (- 1 / 2), Some (- 1 / 2)]
   \<and> map (mix_desired (ni_state s2_input) (ni_desired_vect s2_input)) [0..<MAX_MIX_ACTUATORS]
       = map (\<lambda>n. Some (s2_motor_vect n)) [0..<MAX_MIX_ACTUATORS]
   \<and> map_sum id snd (scan_channels (ni_state s2_input) [0..<MAX_MIX_ACTUATORS]
        (s2_motor_vect, clip_stats_init))
       = Inr s2_stats
   \<and> min_chan s2_stats = Some (- 1 / 2) \<and> max_chan s2_stats = Some (3 / 2)
   \<and> neg_clip s2_stats = - 1 \<and> num_motors s2_stats = 4
   \<and> clip_gain_offset (ni_state s2_input) s2_stats = (1 / 2, - 3 / 20)
   \<and> map_sum id (\<lambda>(mv2, st2). map mv2 [0, 1, 2, 3])
        (post_process_scale_and_commit powapprox (ni_state s2_input) s2_motor_vect dT
           (ni_armed s2_input) (ni_spin_while_armed s2_input) (ni_stabilize_now s2_input))
       = Inr [powapprox (3 / 5) 1, powapprox (3 / 5) 1, 0, 0]"
proof -
  have mix: "map (mix_desired (ni_state s2_input) (ni_desired_vect s2_input)) [0, 1, 2, 3]
       = [Some (3 / 2), Some (3 / 2), Some (- 1 / 2), Some (- 1 / 2)]"
    by (simp add: s2_mix) (simp add: s2_motor_vect_def)
  have st: "min_chan s2_stats = Some (- 1 / 2) \<and> max_chan s2_stats = Some (3 / 2)
      \<and> neg_clip s2_stats = - 1 \<and> num_motors s2_stats = 4"
    by (simp add: s2_stats_def)
  from mix s2_mix_all st s2_scan s2_gain_offset s2_final [of powapprox dT] show ?thesis
    by (simp only: s2_input_fields simp_thms)
qed

theorem roll_saturation_scenario_witness:
  "map_sum id (\<lambda>(mv2, st2). map mv2 [0, 1, 2, 3])
        (post_process_scale_and_commit (\<lambda>v e. v) (ni_state s2_input) s2_motor_vect 0
           (ni_armed s2_input) (ni_spin_while_armed s2_input) (ni_stabilize_now s2_input))
     = Inr [3 / 5, 3 / 5, 0, 0]"
  using roll_saturation_scenario [of "\<lambda>v e. v" 0] by (simp add: s2_input_fields)

text \<open>
  The claim as stated fails: \<open>neg_clip\<close> is not -1/2, the offset is not -1/40 and the
  final values are not (29/40, 29/40, 0, 0).
\<close>

theorem roll_saturation_counterexample:
  "map_sum id (\<lambda>(mv1, cs). neg_clip cs)
      (scan_channels (ni_state s2_input) [0..<MAX_MIX_ACTUATORS] (s2_motor_vect, clip_stats_init))
     \<noteq> Inr (- 1 / 2)
   \<and> map_sum id (\<lambda>(mv1, cs). snd (clip_gain_offset (ni_state s2_input) cs))
      (scan_channels (ni_state s2_input) [0..<MAX_MIX_ACTUATORS] (s2_motor_vect, clip_stats_init))
     \<noteq> Inr (- 1 / 40)
   \<and> map_sum id (\<lambda>(mv2, st2). map mv2 [0, 1, 2, 3])
        (post_process_scale_and_commit (\<lambda>v e. v) (ni_state s2_input) s2_motor_vect 0
           (ni_armed s2_input) (ni_spin_while_armed s2_input) (ni_stabilize_now s2_input))
     \<noteq> Inr [29 / 40, 29 / 40, 0, 0]"
proof -
  let ?st = "ni_state s2_input"
  let ?cs = "s2_stats"
  from s2_scan obtain mv1 where
    sc: "scan_channels ?st [0..<MAX_MIX_ACTUATORS] (s2_motor_vect, clip_stats_init) = Inr (mv1, ?cs)"
    by (cases "scan_channels ?st [0..<MAX_MIX_ACTUATORS] (s2_motor_vect, clip_stats_init)") auto
  have a: "map_sum id (\<lambda>(mv1, cs). neg_clip cs)
      (scan_channels ?st [0..<MAX_MIX_ACTUATORS] (s2_motor_vect, clip_stats_init)) \<noteq> Inr (- 1 / 2)"
    by (simp add: sc s2_stats_def)
  have b: "map_sum id (\<lambda>(mv1, cs). snd (clip_gain_offset ?st cs))
      (scan_channels ?st [0..<MAX_MIX_ACTUATORS] (s2_motor_vect, clip_stats_init)) \<noteq> Inr (- 1 / 40)"
    by (simp add: sc s2_gain_offset)
  have c: "map_sum id (\<lambda>(mv2, st2). map mv2 [0, 1, 2, 3])
        (post_process_scale_and_commit (\<lambda>v e. v) ?st s2_motor_vect 0
           (ni_armed s2_input) (ni_spin_while_armed s2_input) (ni_stabilize_now s2_input))
     \<noteq> Inr [29 / 40, 29 / 40, 0, 0]"
    using s2_final [of "\<lambda>v e. v" 0] by (simp add: s2_input_fields)
  from a b c show ?thesis by blast
qed

subsection \<open>The tilt transform on a row without thrust\<close>

text \<open>
  Claim C5. A Motor row whose thrust coefficient is 0 should keep its roll, pitch and
  yaw coefficients. The source divides by the coefficient without a test (line 283):
  for the row (0, 0, 64, 0, 0, 0, 0, 0), whose roll coefficient is 1/2, the roll, pitch
  and yaw entries of the cache are the result of a division by zero, not finite numbers.
\<close>

theorem zero_thrust_row_not_finite:
  "mixer_row (\<lambda>k. if k = 2 then 64 else 0) MIXERSETTINGS_MIXER1TYPE_MOTOR 0 = 0
   \<and> mixer_row (\<lambda>k. if k = 2 then 64 else 0) MIXERSETTINGS_MIXER1TYPE_MOTOR 2 = 1 / 2
   \<and> motor_mixer (compute_one_mixer quad_state 0 (\<lambda>k. if k = 2 then 64 else 0)
        MIXERSETTINGS_MIXER1TYPE_MOTOR) 2 = None
   \<and> motor_mixer (compute_one_mixer quad_state 0 (\<lambda>k. if k = 2 then 64 else 0)
        MIXERSETTINGS_MIXER1TYPE_MOTOR) 3 = None
   \<and> motor_mixer (compute_one_mixer quad_state 0 (\<lambda>k. if k = 2 then 64 else 0)
        MIXERSETTINGS_MIXER1TYPE_MOTOR) 4 = None"
proof -
  let ?vals = "\<lambda>k. if k = 2 then 64 else 0 :: 16 word"
  let ?row = "mixer_row ?vals MIXERSETTINGS_MIXER1TYPE_MOTOR"
  have z: "?row 0 = 0" and r: "?row 2 = 1 / 2"
    by (simp_all add: mixer_row_def MIXER_SCALE_def)
  from transform_zero_thrust [of ?row 0] z r show ?thesis
    by (simp add: compute_one_mixer_fields cache_row_def MIXERSETTINGS_MIXER1VECTOR_NUMELEM_def)
qed

subsection \<open>The tilt transform at angle zero\<close>

text \<open>
  At the angle 0 the transform is the identity on every row whose thrust coefficient is
  not 0: each component of the row, the thrust, roll, pitch and yaw among them, keeps
  its value; and \<^verbatim>\<open>compute_one_mixer\<close>, which transforms the Motor rows at the
  angle 0, stores such a row as its coefficients divided by 128.
\<close>

lemma tilt_transform_identity:
  assumes c1: "motormix 0 \<noteq> 0"
    and v0: "sint (vals 0) \<noteq> 0"
    and i: "i < MIXERSETTINGS_MIXER1VECTOR_NUMELEM"
  shows "transformActuatorMixture motormix 0 = (\<lambda>k. Some (motormix k))
       \<and> motor_mixer (compute_one_mixer st mixnum vals MIXERSETTINGS_MIXER1TYPE_MOTOR)
           (mixnum * MIXERSETTINGS_MIXER1VECTOR_NUMELEM + i)
         = Some (real_of_int (sint (vals i)) / 128)"
proof -
  from c1 have a: "transformActuatorMixture motormix 0 = (\<lambda>k. Some (motormix k))"
    by (simp add: fun_eq_iff transform_identity)
  from v0 have "mixer_row vals MIXERSETTINGS_MIXER1TYPE_MOTOR 0 \<noteq> 0"
    by (simp add: mixer_row_def MIXER_SCALE_def del: of_int_sint)
  then have "transformActuatorMixture (mixer_row vals MIXERSETTINGS_MIXER1TYPE_MOTOR) 0 i
      = Some (mixer_row vals MIXERSETTINGS_MIXER1TYPE_MOTOR i)"
    by (rule transform_identity)
  with i have "motor_mixer (compute_one_mixer st mixnum vals MIXERSETTINGS_MIXER1TYPE_MOTOR)
           (mixnum * MIXERSETTINGS_MIXER1VECTOR_NUMELEM + i)
         = Some (real_of_int (sint (vals i)) / 128)"
    by (simp add: compute_one_mixer_fields cache_row_def mixer_row_def MIXER_SCALE_def
          del: of_int_sint)
  with a show ?thesis by simp
qed

lemma tilt_transform_identity_example:
  "transformActuatorMixture (\<lambda>k. if k = 0 then 1 else if k = 2 then 1 / 2 else 0) 0 2 = Some (1 / 2)
   \<and> motor_mixer (compute_one_mixer quad_state 0 (\<lambda>k. if k = 0 then 128 else if k = 2 then 64 else 0)
        MIXERSETTINGS_MIXER1TYPE_MOTOR) 2 = Some (1 / 2)"
proof -
  have h1: "(\<lambda>k::nat. if k = 0 then 1 else if k = 2 then 1 / 2 else 0 :: real) 0 \<noteq> 0" by simp
  have h2: "sint ((\<lambda>k::nat. if k = 0 then 128 else if k = 2 then 64 else 0 :: 16 word) 0) \<noteq> 0"
    by simp
  have h3: "2 < MIXERSETTINGS_MIXER1VECTOR_NUMELEM"
    by (simp add: MIXERSETTINGS_MIXER1VECTOR_NUMELEM_def)
  let ?mm = "\<lambda>k::nat. if k = 0 then 1 else if k = 2 then 1 / 2 else 0 :: real"
  let ?vals = "\<lambda>k::nat. if k = 0 then 128 else if k = 2 then 64 else 0 :: 16 word"
  from tilt_transform_identity [of ?mm ?vals 2 quad_state 0] h1 h2 h3
  have T: "transformActuatorMixture ?mm 0 = (\<lambda>k. Some (?mm k))
       \<and> motor_mixer (compute_one_mixer quad_state 0 ?vals MIXERSETTINGS_MIXER1TYPE_MOTOR)
           (0 * MIXERSETTINGS_MIXER1VECTOR_NUMELEM + 2)
         = Some (real_of_int (sint (?vals 2)) / 128)"
    by blast
  from T have "transformActuatorMixture ?mm 0 2 = Some (?mm 2)" by simp
  moreover from T have
    "motor_mixer (compute_one_mixer quad_state 0 ?vals MIXERSETTINGS_MIXER1TYPE_MOTOR) 2
       = Some (1 / 2)"
    by (simp add: numeral_2_eq_2)
  ultimately show ?thesis by simp
qed

text \<open>
  Claim C7. At the angle 0 the transform should be the identity on every row. On a row
  whose thrust coefficient is 0 it is not: the division by the coefficient (line 283)
  is a division by zero, and for the row with the roll coefficient 1/2 and zeros
  elsewhere the roll, pitch and yaw that come back are not finite numbers; the thrust
  comes back as 0.
\<close>

theorem tilt_transform_zero_thrust_row:
  "transformActuatorMixture (\<lambda>k. if k = 2 then 1 / 2 else 0) 0 0 = Some 0
   \<and> transformActuatorMixture (\<lambda>k. if k = 2 then 1 / 2 else 0) 0 2 = None
   \<and> transformActuatorMixture (\<lambda>k. if k = 2 then 1 / 2 else 0) 0 3 = None
   \<and> transformActuatorMixture (\<lambda>k. if k = 2 then 1 / 2 else 0) 0 4 = None"
  by (simp add: transform_zero_thrust)

subsection \<open>Hang time\<close>




subsection \<open>The interlock\<close>

text \<open>
  Claim C9. When the task checks the flag at the time \<open>entry\<close> of a tick and reads
  it as not Ok, it holds in the inner loop, whose expiry time is \<open>entry + 100\<close>.

  One pass, with the clock at \<open>now\<close>: a pass that reads the flag as the stop request
  sets the failsafe outputs. The pass changes the flag only from the stop request to
  Stopped, and does so exactly when more than 100 ms (as a 32 bit difference) have
  passed between \<open>entry\<close> and \<open>now\<close>. A pass leaves a flag that is Stopped as it is
  and never sets the flag to Ok.

  The hold, over the passes \<open>evs\<close>. Entered on a stop request and with no write from
  outside, the loop is still running after the passes; it has set the failsafe in the
  first \<open>k\<close> passes, those whose clock is within 100 ms of \<open>entry\<close>, and in the
  pass after them if there is one, where it has set the flag to Stopped; the alarm is
  Critical and every channel is published and given to the servo driver at its
  failsafe value. As long as nobody outside writes Ok, the loop is still running and
  the flag is not Ok. The loop returns in the pass in which the Ok is written from
  outside, with the state of that pass. With the flag Ok at the check there is no hold.
\<close>

theorem interlock_hold:
  fixes entry now :: "32 word"
  assumes body: "st' = interlock_body (entry + 100) now st"
    and k: "k = length (takeWhile (\<lambda>ev. \<not> 100 < unat (he_systime ev - entry)) evs)"
  shows "(actuator_interlock st = ACTUATOR_INTERLOCK_STOPREQUEST \<longrightarrow>
            servo st' = servo (set_failsafe st)
            \<and> ActuatorCommand st' = ActuatorCommand (set_failsafe st)
            \<and> actuator_alarm st' = SYSTEMALARMS_ALARM_CRITICAL)
       \<and> (actuator_interlock st' \<noteq> actuator_interlock st \<longrightarrow>
            actuator_interlock st = ACTUATOR_INTERLOCK_STOPREQUEST
            \<and> actuator_interlock st' = ACTUATOR_INTERLOCK_STOPPED
            \<and> 100 < unat (now - entry))
       \<and> (actuator_interlock st = ACTUATOR_INTERLOCK_STOPREQUEST \<and> 100 < unat (now - entry) \<longrightarrow>
            actuator_interlock st' = ACTUATOR_INTERLOCK_STOPPED)
       \<and> (actuator_interlock st = ACTUATOR_INTERLOCK_STOPPED \<longrightarrow>
            actuator_interlock st' = ACTUATOR_INTERLOCK_STOPPED)
       \<and> (actuator_interlock st' = ACTUATOR_INTERLOCK_OK \<longrightarrow>
            actuator_interlock st = ACTUATOR_INTERLOCK_OK)
       \<and> (actuator_interlock st = ACTUATOR_INTERLOCK_STOPREQUEST
            \<and> (\<forall>ev \<in> set evs. he_write ev = None) \<and> evs \<noteq> [] \<longrightarrow>
          (\<exists>h. interlock_check entry evs st = Some (Holding h)
             \<and> actuator_interlock h =
                 (if k < length evs then ACTUATOR_INTERLOCK_STOPPED
                  else ACTUATOR_INTERLOCK_STOPREQUEST)
             \<and> servo_updates h = servo_updates st + (if k < length evs then Suc k else k)
             \<and> actuator_alarm h = SYSTEMALARMS_ALARM_CRITICAL
             \<and> (\<forall>n<MAX_MIX_ACTUATORS.
                   servo h n = channel_failsafe_value st n
                   \<and> Channel (ActuatorCommand h) n = channel_failsafe_value st n)))
       \<and> (actuator_interlock st \<noteq> ACTUATOR_INTERLOCK_OK
            \<and> (\<forall>ev \<in> set evs. he_write ev \<noteq> Some ACTUATOR_INTERLOCK_OK) \<longrightarrow>
          (\<exists>h. interlock_check entry evs st = Some (Holding h)
             \<and> actuator_interlock h \<noteq> ACTUATOR_INTERLOCK_OK
             \<and> (he_write ev = Some ACTUATOR_INTERLOCK_OK \<longrightarrow>
                  interlock_check entry (evs @ ev # rest) st =
                    Some (Released (external_write ev
                            (interlock_body (entry + 100) (he_systime ev) h))))))
       \<and> (actuator_interlock st = ACTUATOR_INTERLOCK_OK \<longrightarrow>
            interlock_check entry evs st = None)"
proof -
  have f: "actuator_interlock st' =
     (if actuator_interlock st = ACTUATOR_INTERLOCK_STOPREQUEST \<and> 100 < unat (now - entry)
      then ACTUATOR_INTERLOCK_STOPPED else actuator_interlock st)"
    using body by (simp add: interlock_body_flag expiry_elapsed)
  have out: "actuator_interlock st = ACTUATOR_INTERLOCK_STOPREQUEST \<longrightarrow>
            servo st' = servo (set_failsafe st)
            \<and> ActuatorCommand st' = ActuatorCommand (set_failsafe st)
            \<and> actuator_alarm st' = SYSTEMALARMS_ALARM_CRITICAL"
    using body interlock_body_outputs [of st "entry + 100" now] by (simp add: set_failsafe_fields)
  have run: "\<exists>h. interlock_check entry evs st = Some (Holding h)
             \<and> actuator_interlock h =
                 (if k < length evs then ACTUATOR_INTERLOCK_STOPPED
                  else ACTUATOR_INTERLOCK_STOPREQUEST)
             \<and> servo_updates h = servo_updates st + (if k < length evs then Suc k else k)
             \<and> actuator_alarm h = SYSTEMALARMS_ALARM_CRITICAL
             \<and> (\<forall>n<MAX_MIX_ACTUATORS.
                   servo h n = channel_failsafe_value st n
                   \<and> Channel (ActuatorCommand h) n = channel_failsafe_value st n)"
    if rq: "actuator_interlock st = ACTUATOR_INTERLOCK_STOPREQUEST"
      and quiet: "\<forall>ev \<in> set evs. he_write ev = None" and ne: "evs \<noteq> []"
  proof -
    have kl: "k \<le> length evs" unfolding k by (rule length_takeWhile_le)
    from interlock_loop_request [OF quiet rq, of entry] obtain h where
      h: "interlock_loop (entry + 100) evs st = Holding h"
         "actuator_interlock h =
            (if k < length evs then ACTUATOR_INTERLOCK_STOPPED else ACTUATOR_INTERLOCK_STOPREQUEST)"
         "servo_updates h = servo_updates st + (if k < length evs then Suc k else length evs)"
         "evs \<noteq> [] \<longrightarrow>
                actuator_alarm h = SYSTEMALARMS_ALARM_CRITICAL
                \<and> (\<forall>n<MAX_MIX_ACTUATORS.
                      servo h n = channel_failsafe_value st n
                      \<and> Channel (ActuatorCommand h) n = channel_failsafe_value st n)"
      unfolding k by blast
    from h(3) kl have su: "servo_updates h = servo_updates st + (if k < length evs then Suc k else k)"
      by simp
    from rq h(1) have "interlock_check entry evs st = Some (Holding h)"
      by (simp add: interlock_check_def)
    with h(2) su h(4) ne show ?thesis by blast
  qed
  have hold: "\<exists>h. interlock_check entry evs st = Some (Holding h)
             \<and> actuator_interlock h \<noteq> ACTUATOR_INTERLOCK_OK
             \<and> (he_write ev = Some ACTUATOR_INTERLOCK_OK \<longrightarrow>
                  interlock_check entry (evs @ ev # rest) st =
                    Some (Released (external_write ev
                            (interlock_body (entry + 100) (he_systime ev) h))))"
    if nok: "actuator_interlock st \<noteq> ACTUATOR_INTERLOCK_OK"
      and quiet: "\<forall>ev \<in> set evs. he_write ev \<noteq> Some ACTUATOR_INTERLOCK_OK"
  proof -
    from interlock_loop_holds [OF quiet nok, of "entry + 100"] obtain h where
      h: "interlock_loop (entry + 100) evs st = Holding h"
         "actuator_interlock h \<noteq> ACTUATOR_INTERLOCK_OK" by blast
    have rel: "interlock_loop (entry + 100) (evs @ ev # rest) st =
                 Released (external_write ev (interlock_body (entry + 100) (he_systime ev) h))"
      if w: "he_write ev = Some ACTUATOR_INTERLOCK_OK"
    proof -
      have ok: "actuator_interlock (external_write ev (interlock_body (entry + 100) (he_systime ev) h))
                  = ACTUATOR_INTERLOCK_OK"
        using w by (simp add: external_write_def)
      have "interlock_loop (entry + 100) (ev # rest) h =
              Released (external_write ev (interlock_body (entry + 100) (he_systime ev) h))"
        using h(2) ok by (cases rest) simp_all
      with interlock_loop_append [OF h(1), of "ev # rest"] show ?thesis by simp
    qed
    from nok h rel show ?thesis by (simp add: interlock_check_def)
  qed
  have idle: "actuator_interlock st = ACTUATOR_INTERLOCK_OK \<longrightarrow>
            interlock_check entry evs st = None"
    by (simp add: interlock_check_def)
  from f have p2: "actuator_interlock st' \<noteq> actuator_interlock st \<longrightarrow>
            actuator_interlock st = ACTUATOR_INTERLOCK_STOPREQUEST
            \<and> actuator_interlock st' = ACTUATOR_INTERLOCK_STOPPED
            \<and> 100 < unat (now - entry)"
    and p3: "actuator_interlock st = ACTUATOR_INTERLOCK_STOPREQUEST \<and> 100 < unat (now - entry) \<longrightarrow>
            actuator_interlock st' = ACTUATOR_INTERLOCK_STOPPED"
    and p4: "actuator_interlock st = ACTUATOR_INTERLOCK_STOPPED \<longrightarrow>
            actuator_interlock st' = ACTUATOR_INTERLOCK_STOPPED"
    and p5: "actuator_interlock st' = ACTUATOR_INTERLOCK_OK \<longrightarrow>
            actuator_interlock st = ACTUATOR_INTERLOCK_OK"
    by (simp_all split: if_splits)
  from out p2 p3 p4 p5 run hold idle show ?thesis by blast
qed

theorem interlock_hold_witness:
  "(case interlock_check 1000
           [\<lparr>he_systime = 1003, he_write = None\<rparr>, \<lparr>he_systime = 1104, he_write = None\<rparr>,
            \<lparr>he_systime = 1107, he_write = None\<rparr>]
           (quad_state\<lparr>actuator_interlock := ACTUATOR_INTERLOCK_STOPREQUEST\<rparr>) of
      Some (Holding h) \<Rightarrow>
        actuator_interlock h = ACTUATOR_INTERLOCK_STOPPED
        \<and> servo_updates h = 2
        \<and> actuator_alarm h = SYSTEMALARMS_ALARM_CRITICAL
        \<and> servo h 0 = 1000
        \<and> Channel (ActuatorCommand h) 4 = 1500
    | _ \<Rightarrow> False)
   \<and> (case interlock_check 1000
           [\<lparr>he_systime = 1003, he_write = None\<rparr>, \<lparr>he_systime = 1050, he_write = None\<rparr>]
           (quad_state\<lparr>actuator_interlock := ACTUATOR_INTERLOCK_STOPREQUEST\<rparr>) of
      Some (Holding h) \<Rightarrow>
        actuator_interlock h = ACTUATOR_INTERLOCK_STOPREQUEST
        \<and> servo_updates h = 2
        \<and> actuator_alarm h = SYSTEMALARMS_ALARM_CRITICAL
    | _ \<Rightarrow> False)
   \<and> (case interlock_check 1000
           ([\<lparr>he_systime = 1003, he_write = None\<rparr>, \<lparr>he_systime = 1104, he_write = None\<rparr>,
             \<lparr>he_systime = 1107, he_write = None\<rparr>]
            @ [\<lparr>he_systime = 1110, he_write = Some ACTUATOR_INTERLOCK_OK\<rparr>])
           (quad_state\<lparr>actuator_interlock := ACTUATOR_INTERLOCK_STOPREQUEST\<rparr>) of
      Some (Released r) \<Rightarrow>
        actuator_interlock r = ACTUATOR_INTERLOCK_OK
        \<and> servo_updates r = 2
        \<and> actuator_alarm r = SYSTEMALARMS_ALARM_CRITICAL
        \<and> servo r 0 = 1000
    | _ \<Rightarrow> False)
   \<and> interlock_check 1000 [\<lparr>he_systime = 1003, he_write = None\<rparr>] quad_state = None
   \<and> actuator_interlock (interlock_body (1000 + 100) 1101
      (quad_state\<lparr>actuator_interlock := ACTUATOR_INTERLOCK_STOPREQUEST\<rparr>))
     = ACTUATOR_INTERLOCK_STOPPED
   \<and> actuator_interlock (interlock_body (1000 + 100) 1100
      (quad_state\<lparr>actuator_interlock := ACTUATOR_INTERLOCK_STOPREQUEST\<rparr>))
     = ACTUATOR_INTERLOCK_STOPREQUEST
   \<and> actuator_alarm (interlock_body (1000 + 100) 1100
      (quad_state\<lparr>actuator_interlock := ACTUATOR_INTERLOCK_STOPREQUEST\<rparr>))
     = SYSTEMALARMS_ALARM_CRITICAL
   \<and> actuator_interlock (interlock_body (1000 + 100) 1101
      (quad_state\<lparr>actuator_interlock := ACTUATOR_INTERLOCK_STOPPED\<rparr>))
     = ACTUATOR_INTERLOCK_STOPPED"
proof -
  define rq where "rq = quad_state\<lparr>actuator_interlock := ACTUATOR_INTERLOCK_STOPREQUEST\<rparr>"
  define sp where "sp = quad_state\<lparr>actuator_interlock := ACTUATOR_INTERLOCK_STOPPED\<rparr>"
  define evs :: "hold_event list" where
    "evs = [\<lparr>he_systime = 1003, he_write = None\<rparr>, \<lparr>he_systime = 1104, he_write = None\<rparr>,
            \<lparr>he_systime = 1107, he_write = None\<rparr>]"
  define evs2 :: "hold_event list" where
    "evs2 = [\<lparr>he_systime = 1003, he_write = None\<rparr>, \<lparr>he_systime = 1050, he_write = None\<rparr>]"
  define ok :: hold_event where
    "ok = \<lparr>he_systime = 1110, he_write = Some ACTUATOR_INTERLOCK_OK\<rparr>"
  have rq: "actuator_interlock rq = ACTUATOR_INTERLOCK_STOPREQUEST"
    and rq': "actuator_interlock rq \<noteq> ACTUATOR_INTERLOCK_OK"
    and sp: "actuator_interlock sp = ACTUATOR_INTERLOCK_STOPPED"
    and idle: "actuator_interlock quad_state = ACTUATOR_INTERLOCK_OK"
    and su: "servo_updates rq = 0"
    by (simp_all add: rq_def sp_def quad_state_def)
  have late: "100 < unat (1101 - 1000 :: 32 word)" and early: "\<not> 100 < unat (1100 - 1000 :: 32 word)"
    by simp_all
  have quiet: "\<forall>ev \<in> set evs. he_write ev = None" "\<forall>ev \<in> set evs2. he_write ev = None"
    and quiet': "\<forall>ev \<in> set evs. he_write ev \<noteq> Some ACTUATOR_INTERLOCK_OK"
    and ne: "evs \<noteq> []" "evs2 \<noteq> []"
    and w: "he_write ok = Some ACTUATOR_INTERLOCK_OK"
    by (simp_all add: evs_def evs2_def ok_def)
  have k: "length (takeWhile (\<lambda>ev. \<not> 100 < unat (he_systime ev - 1000)) evs) = 1"
          "length (takeWhile (\<lambda>ev. \<not> 100 < unat (he_systime ev - 1000)) evs2) = 2"
          "length evs = 3" "length evs2 = 2"
    by (simp_all add: evs_def evs2_def)
  have fs: "channel_failsafe_value rq 0 = 1000" "channel_failsafe_value rq 4 = 1500"
    by (simp_all add: rq_def quad_state_def quad_types_def quad_settings_def)
  have n: "0 < MAX_MIX_ACTUATORS" "4 < MAX_MIX_ACTUATORS" by (simp_all add: MAX_MIX_ACTUATORS_def)
  note T1 = interlock_hold [where entry = 1000 and now = 1101 and st = rq and evs = evs
      and ev = ok and rest = "[]", OF refl refl]
  note T2 = interlock_hold [where entry = 1000 and now = 1100 and st = rq and evs = evs2
      and ev = ok and rest = "[]", OF refl refl]
  note T3 = interlock_hold [where entry = 1000 and now = 1101 and st = sp and evs = evs
      and ev = ok and rest = "[]", OF refl refl]
  note T4 = interlock_hold [where entry = 1000 and now = 1101 and st = quad_state
      and evs = "[\<lparr>he_systime = 1003, he_write = None\<rparr>]" and ev = ok and rest = "[]", OF refl refl]
  from T1 rq quiet(1) ne(1) obtain h where
    h: "interlock_check 1000 evs rq = Some (Holding h)"
       "actuator_interlock h = ACTUATOR_INTERLOCK_STOPPED"
       "servo_updates h = 2"
       "actuator_alarm h = SYSTEMALARMS_ALARM_CRITICAL"
       "\<forall>n<MAX_MIX_ACTUATORS.
           servo h n = channel_failsafe_value rq n
           \<and> Channel (ActuatorCommand h) n = channel_failsafe_value rq n"
    unfolding k su by auto
  from h(5) n fs have hv: "servo h 0 = 1000" "Channel (ActuatorCommand h) 4 = 1500" by simp_all
  from T2 rq quiet(2) ne(2) obtain h2 where
    h2: "interlock_check 1000 evs2 rq = Some (Holding h2)"
       "actuator_interlock h2 = ACTUATOR_INTERLOCK_STOPREQUEST"
       "servo_updates h2 = 2"
       "actuator_alarm h2 = SYSTEMALARMS_ALARM_CRITICAL"
    unfolding k su by auto
  from T1 rq' quiet' w obtain h' where
    h': "interlock_check 1000 evs rq = Some (Holding h')"
        "interlock_check 1000 (evs @ [ok]) rq =
           Some (Released (external_write ok (interlock_body (1000 + 100) (he_systime ok) h')))"
    by blast
  from h(1) h'(1) have same: "h' = h" by simp
  have r: "external_write ok (interlock_body (1000 + 100) (he_systime ok) h)
             = h\<lparr>actuator_interlock := ACTUATOR_INTERLOCK_OK\<rparr>"
    using h(2) by (simp add: external_write_def interlock_body_def ok_def)
  from T4 idle have e: "interlock_check 1000 [\<lparr>he_systime = 1003, he_write = None\<rparr>] quad_state = None"
    by blast
  from T1 rq late have a: "actuator_interlock (interlock_body (1000 + 100) 1101 rq)
     = ACTUATOR_INTERLOCK_STOPPED" by blast
  from T2 rq early have b: "actuator_interlock (interlock_body (1000 + 100) 1100 rq)
     = ACTUATOR_INTERLOCK_STOPREQUEST" by metis
  from T2 rq have c: "actuator_alarm (interlock_body (1000 + 100) 1100 rq)
     = SYSTEMALARMS_ALARM_CRITICAL" by blast
  from T3 sp have d: "actuator_interlock (interlock_body (1000 + 100) 1101 sp)
     = ACTUATOR_INTERLOCK_STOPPED" by blast
  from h hv h2 h'(2) same r e a b c d show ?thesis
    unfolding rq_def [symmetric] sp_def [symmetric] evs_def [symmetric] evs2_def [symmetric]
      ok_def [symmetric]
    by simp
qed

end
